theory Spec2Isabelle
  imports Main "HOL-Library.Sublist" "HOL-Library.Multiset"
begin

section \<open>Errors and log entries\<close>

text \<open>
  Every exception the merge script can raise is a value of \<open>error\<close>; a function that can
  raise returns \<open>error + 'a\<close> with \<open>Inl\<close> for the exception.  \<open>InsufficientInputError\<close> is
  the error kind the specification names for an empty extent list; no statement of
  \<^verbatim>\<open>merge-projects.py\<close> raises it.
\<close>

datatype error =
    ParseError
  | FileNotFoundError
  | AttributeError
  | KeyError
  | ValueError
  | TypeError
  | IndexError
  | RasterOpenError
  | InsufficientInputError

datatype level = Debug | Info | Warning

type_synonym log = "(level \<times> string) list"

section \<open>Strings and paths\<close>

text \<open>
  A Python string is held as the bytes of its UTF-8 encoding.  The separators, quotes and
  literals the script looks for are ASCII, so a search for them in the bytes finds what
  the search in the characters finds.  \<^verbatim>\<open>str.lower\<close> applies the case mapping of Unicode
  to the whole text; it is a parameter of the model, of this type.
\<close>

type_synonym str_lower = "string \<Rightarrow> string"

text \<open>\<^verbatim>\<open>s.endswith(ext)\<close>.\<close>

definition endswith :: "string \<Rightarrow> string \<Rightarrow> bool" where
  "endswith s ext = (length ext \<le> length s \<and> drop (length s - length ext) s = ext)"

text \<open>\<^verbatim>\<open>os.path.join(a, b)\<close> and \<^verbatim>\<open>os.path.dirname(p)\<close> of \<^verbatim>\<open>posixpath\<close>.\<close>

definition os_path_join :: "string \<Rightarrow> string \<Rightarrow> string" where
  "os_path_join a b =
     (if b \<noteq> [] \<and> hd b = CHR ''/'' then b
      else if a = [] \<or> last a = CHR ''/'' then a @ b
      else a @ ''/'' @ b)"

fun rstrip_slash :: "string \<Rightarrow> string" where
  "rstrip_slash s = rev (dropWhile (\<lambda>c. c = CHR ''/'') (rev s))"

definition os_path_dirname :: "string \<Rightarrow> string" where
  "os_path_dirname p =
     (let head = rev (dropWhile (\<lambda>c. c \<noteq> CHR ''/'') (rev p))
      in if head \<noteq> [] \<and> \<not> (\<forall>c \<in> set head. c = CHR ''/'') then rstrip_slash head else head)"

definition os_path_basename :: "string \<Rightarrow> string" where
  "os_path_basename p = rev (takeWhile (\<lambda>c. c \<noteq> CHR ''/'') (rev p))"

section \<open>The metadata tree\<close>

text \<open>
  An \<^verbatim>\<open>xml.etree.ElementTree\<close> element: tag, attributes, text (\<open>None\<close> for an element
  without text) and children in document order.
\<close>

datatype element =
  Element (el_tag: string) (el_attrib: "(string \<times> string) list")
          (el_text: "string option") (el_children: "element list")

text \<open>
  An element object is identified by its position: the child indices on the way from the
  root.  The root is \<open>[]\<close>; the parent of the element at \<open>p\<close> is at \<open>butlast p\<close>.
\<close>

type_synonym pos = "nat list"

text \<open>
  \<^verbatim>\<open>findall('.//tag')\<close>: the proper descendants with the tag, in document order, each with
  its position and its text.
\<close>

fun findall_pos :: "string \<Rightarrow> pos \<Rightarrow> element \<Rightarrow> (pos \<times> string option) list"
  and findall_pos_list :: "string \<Rightarrow> pos \<Rightarrow> nat \<Rightarrow> element list \<Rightarrow> (pos \<times> string option) list"
where
  "findall_pos tg p (Element t a x cs) = findall_pos_list tg p 0 cs"
| "findall_pos_list tg p i [] = []"
| "findall_pos_list tg p i (c # cs) =
     (if el_tag c = tg then [(p @ [i], el_text c)] else [])
     @ findall_pos tg (p @ [i]) c
     @ findall_pos_list tg p (Suc i) cs"

text \<open>The same search returning the elements themselves.\<close>

fun findall :: "string \<Rightarrow> element \<Rightarrow> element list"
  and findall_list :: "string \<Rightarrow> element list \<Rightarrow> element list"
where
  "findall tg (Element t a x cs) = findall_list tg cs"
| "findall_list tg [] = []"
| "findall_list tg (c # cs) =
     (if el_tag c = tg then [c] else []) @ findall tg c @ findall_list tg cs"

text \<open>\<^verbatim>\<open>elem.find('tag')\<close>: the first child with the tag.\<close>

definition find_child :: "string \<Rightarrow> element \<Rightarrow> element option" where
  "find_child tg e = List.find (\<lambda>c. el_tag c = tg) (el_children e)"

text \<open>\<^verbatim>\<open>elem.find('tag').text\<close>: an attribute error when there is no such child.\<close>

definition find_text :: "string \<Rightarrow> element \<Rightarrow> error + string option" where
  "find_text tg e = (case find_child tg e of None \<Rightarrow> Inl AttributeError | Some c \<Rightarrow> Inr (el_text c))"

text \<open>\<^verbatim>\<open>elem.attrib[key]\<close>.\<close>

definition attrib_get :: "string \<Rightarrow> element \<Rightarrow> error + string" where
  "attrib_get k e = (case map_of (el_attrib e) k of None \<Rightarrow> Inl KeyError | Some v \<Rightarrow> Inr v)"

text \<open>
  The tree left after the children at the positions in \<open>R\<close> have been taken out of their
  parents' child lists.
\<close>

fun prune :: "pos set \<Rightarrow> pos \<Rightarrow> element \<Rightarrow> element"
  and prune_list :: "pos set \<Rightarrow> pos \<Rightarrow> nat \<Rightarrow> element list \<Rightarrow> element list"
where
  "prune R p (Element t a x cs) = Element t a x (prune_list R p 0 cs)"
| "prune_list R p i [] = []"
| "prune_list R p i (c # cs) =
     (if p @ [i] \<in> R then [] else [prune R (p @ [i]) c]) @ prune_list R p (Suc i) cs"

section \<open>The pruning pass: \<^verbatim>\<open>delete_unmerged_paths\<close>\<close>

definition file_ext :: "string list" where
  "file_ext = [''gpkg'', ''geojson'', ''tif'', ''tiff'', ''log'']"

text \<open>\<^verbatim>\<open>[ext for ext in file_ext if path_element.text.lower().endswith(ext)]\<close>.\<close>

definition matches :: "str_lower \<Rightarrow> string \<Rightarrow> string list" where
  "matches lower t = filter (\<lambda>ext. endswith (lower t) ext) file_ext"

text \<open>
  The loop over the \<^verbatim>\<open>Path\<close> elements.  The list of elements and the parent map are both
  built before the first removal.  \<open>removed\<close> holds the positions already taken out of
  their parent: \<^verbatim>\<open>grandparent.remove(parent)\<close> raises \<^verbatim>\<open>ValueError\<close> for a parent that is
  no longer a child, \<^verbatim>\<open>parent_map[parent]\<close> raises \<^verbatim>\<open>KeyError\<close> for the root, and
  \<^verbatim>\<open>.lower()\<close> raises \<^verbatim>\<open>AttributeError\<close> on a \<^verbatim>\<open>Path\<close> without text.
\<close>

fun prune_loop ::
  "str_lower \<Rightarrow> (pos \<times> string option) list \<Rightarrow> pos list \<Rightarrow> log \<Rightarrow> error + (pos list \<times> log)" where
  "prune_loop lower [] removed lg = Inr (removed, lg)"
| "prune_loop lower ((p, txt) # rest) removed lg =
     (case txt of
        None \<Rightarrow> Inl AttributeError
      | Some t \<Rightarrow>
          if length (matches lower t) = 0 then
            (let lg' = lg @ [(Info, ''Removing non GeoPackage, raster or log with contents '' @ t)];
                 parent = butlast p
             in if parent = [] then Inl KeyError
                else if parent \<in> set removed then Inl ValueError
                else prune_loop lower rest (removed @ [parent]) lg')
          else prune_loop lower rest removed lg)"

definition delete_unmerged_paths_tree :: "str_lower \<Rightarrow> element \<Rightarrow> error + (element \<times> log)" where
  "delete_unmerged_paths_tree lower root =
     (case prune_loop lower (findall_pos ''Path'' [] root) [] [] of
        Inl e \<Rightarrow> Inl e
      | Inr (removed, lg) \<Rightarrow> Inr (prune (set removed) [] root, lg))"

section \<open>The file system\<close>

text \<open>
  What the script can see of a file: a metadata tree, a raster with the sample data type
  and the no-data value of its band, a GeoJSON extent with the polygon of its first
  feature (\<open>None\<close> when it is JSON without such a feature), or anything else.  The raster
  data type is GDAL's integer code; \<open>'g\<close> is the geometry engine's geometry and \<open>'v\<close> the
  no-data value.
\<close>

datatype ('g, 'v) content =
    XmlFile element
  | RasterFile int "'v option"
  | GeoJsonFile "'g option"
  | OtherFile

type_synonym ('g, 'v) fs = "string \<rightharpoonup> ('g, 'v) content"

text \<open>\<^verbatim>\<open>os.path.isfile\<close> and \<^verbatim>\<open>os.remove\<close>.\<close>

definition isfile :: "('g, 'v) fs \<Rightarrow> string \<Rightarrow> bool" where
  "isfile fs p = (fs p \<noteq> None)"

definition os_remove :: "('g, 'v) fs \<Rightarrow> string \<Rightarrow> ('g, 'v) fs" where
  "os_remove fs p = fs(p := None)"

text \<open>\<^verbatim>\<open>ET.parse(path)\<close>.\<close>

definition ET_parse :: "('g, 'v) fs \<Rightarrow> string \<Rightarrow> error + element" where
  "ET_parse fs path =
     (case fs path of
        None \<Rightarrow> Inl FileNotFoundError
      | Some (XmlFile e) \<Rightarrow> Inr e
      | Some _ \<Rightarrow> Inl ParseError)"

text \<open>
  A command handed to \<^verbatim>\<open>subprocess.call(..., shell=True)\<close>, with the working directory
  when one is given: it returns an exit status and may change files.  The script never
  looks at the status.
\<close>

type_synonym ('g, 'v) shell = "string option \<Rightarrow> string \<Rightarrow> ('g, 'v) fs \<Rightarrow> int \<times> ('g, 'v) fs"

text \<open>
  The pruning pass on the file: parse, prune, write back.  Nothing is written when it
  raises.
\<close>

definition delete_unmerged_paths ::
  "str_lower \<Rightarrow> ('g, 'v) fs \<Rightarrow> string \<Rightarrow> error + (('g, 'v) fs \<times> log)" where
  "delete_unmerged_paths lower fs merged_project_xml =
     (case ET_parse fs merged_project_xml of
        Inl e \<Rightarrow> Inl e
      | Inr root \<Rightarrow>
          (case delete_unmerged_paths_tree lower root of
             Inl e \<Rightarrow> Inl e
           | Inr (root', lg) \<Rightarrow> Inr (fs(merged_project_xml \<mapsto> XmlFile root'), lg)))"

section \<open>Catalog folding: \<^verbatim>\<open>get_raster_datasets\<close> and \<^verbatim>\<open>get_vector_datasets\<close>\<close>

text \<open>
  \<^verbatim>\<open>re.compile(x, re.IGNORECASE).match(path)\<close> is a parameter \<open>rm x path\<close> of the model.
  The list comprehension calls it for every pattern before \<^verbatim>\<open>any\<close> looks at the results;
  a \<^verbatim>\<open>Path\<close> without text is \<^verbatim>\<open>None\<close>, on which \<^verbatim>\<open>match\<close> raises \<^verbatim>\<open>TypeError\<close>, as
  \<^verbatim>\<open>os.path.join\<close> does.
\<close>

type_synonym regex_match = "string \<Rightarrow> string \<Rightarrow> bool"

definition any_match :: "regex_match \<Rightarrow> string list \<Rightarrow> string option \<Rightarrow> error + bool" where
  "any_match rm regex_list path =
     (case path of
        None \<Rightarrow> if regex_list = [] then Inr False else Inl TypeError
      | Some p \<Rightarrow> Inr (list_ex (\<lambda>x. rm x p) regex_list))"

text \<open>What an f-string prints for a value that may be \<^verbatim>\<open>None\<close>.\<close>

definition str_opt :: "string option \<Rightarrow> string" where
  "str_opt x = (case x of None \<Rightarrow> ''None'' | Some s \<Rightarrow> s)"

text \<open>
  A Python dictionary keeps its keys in insertion order: an association list with
  distinct keys, a new key going to the end.
\<close>

fun dict_set :: "('k \<times> 'a) list \<Rightarrow> 'k \<Rightarrow> 'a \<Rightarrow> ('k \<times> 'a) list" where
  "dict_set [] k v = [(k, v)]"
| "dict_set ((k', v') # d) k v = (if k' = k then (k, v) # d else (k', v') # dict_set d k v)"

text \<open>The value stored under a key changed in place; nothing happens for a missing key.\<close>

fun dict_upd :: "('k \<times> 'a) list \<Rightarrow> 'k \<Rightarrow> ('a \<Rightarrow> 'a) \<Rightarrow> ('k \<times> 'a) list" where
  "dict_upd [] k f = []"
| "dict_upd ((k', v') # d) k f = (if k' = k then (k', f v') # d else (k', v') # dict_upd d k f)"

record raster_info =
  r_path :: string
  r_name :: "string option"
  r_id :: string
  r_occurences :: "string list"

type_synonym raster_catalog = "(string \<times> raster_info) list"

text \<open>The body of the loop over the rasters of one project.\<close>

definition raster_step ::
  "regex_match \<Rightarrow> string list \<Rightarrow> string \<Rightarrow> element \<Rightarrow> raster_catalog \<times> log
     \<Rightarrow> error + (raster_catalog \<times> log)" where
  "raster_step rm regex_list project raster st =
     (case attrib_get ''id'' raster of Inl e \<Rightarrow> Inl e | Inr raster_id \<Rightarrow>
      case find_text ''Path'' raster of Inl e \<Rightarrow> Inl e | Inr path \<Rightarrow>
      case find_text ''Name'' raster of Inl e \<Rightarrow> Inl e | Inr name \<Rightarrow>
      case any_match rm regex_list path of Inl e \<Rightarrow> Inl e | Inr hit \<Rightarrow>
        if \<not> hit then
          Inr (fst st, snd st @ [(Info, ''Skipping non-regex raster '' @ str_opt name
                                        @ '' with path '' @ str_opt path)])
        else
          (case path of
             None \<Rightarrow> Inl TypeError
           | Some p \<Rightarrow>
               (let master_project = fst st;
                    master_project1 =
                      (if map_of master_project raster_id = None
                       then dict_set master_project raster_id
                              \<lparr>r_path = p, r_name = name, r_id = raster_id, r_occurences = []\<rparr>
                       else master_project)
                in Inr (dict_upd master_project1 raster_id
                          (\<lambda>e. e\<lparr>r_occurences := r_occurences e
                                      @ [os_path_join (os_path_dirname project) p]\<rparr>),
                        snd st))))"

text \<open>A loop whose body can raise: the first exception ends it.\<close>

fun for_each :: "('a \<Rightarrow> 's \<Rightarrow> error + 's) \<Rightarrow> 'a list \<Rightarrow> 's \<Rightarrow> error + 's" where
  "for_each body [] st = Inr st"
| "for_each body (x # xs) st =
     (case body x st of Inl e \<Rightarrow> Inl e | Inr st' \<Rightarrow> for_each body xs st')"

definition get_raster_datasets ::
  "('g, 'v) fs \<Rightarrow> regex_match \<Rightarrow> string \<Rightarrow> raster_catalog \<times> log \<Rightarrow> string list
     \<Rightarrow> error + (raster_catalog \<times> log)" where
  "get_raster_datasets fs rm project st regex_list =
     (case ET_parse fs project of
        Inl e \<Rightarrow> Inl e
      | Inr tree \<Rightarrow>
          for_each (raster_step rm regex_list project)
            (findall ''Raster'' tree @ findall ''DEM'' tree) st)"

record layer_info =
  l_fc_name :: string
  l_name :: "string option"
  l_occurences :: "string list"

record gpkg_info =
  g_rel_path :: string
  g_abs_path :: string
  g_name :: "string option"
  g_id :: string
  g_layers :: "(string \<times> layer_info) list"

type_synonym vector_catalog = "(string \<times> gpkg_info) list"

text \<open>The body of the loop over the layers of one GeoPackage.\<close>

definition layer_step ::
  "string \<Rightarrow> element \<Rightarrow> (string \<times> layer_info) list \<Rightarrow> error + (string \<times> layer_info) list" where
  "layer_step occ_path layer layers =
     (case attrib_get ''lyrName'' layer of Inl e \<Rightarrow> Inl e | Inr fc_name \<Rightarrow>
      case find_text ''Name'' layer of Inl e \<Rightarrow> Inl e | Inr layer_name \<Rightarrow>
        (let layers1 =
               (if map_of layers fc_name = None
                then dict_set layers fc_name
                       \<lparr>l_fc_name = fc_name, l_name = layer_name, l_occurences = []\<rparr>
                else layers)
         in Inr (dict_upd layers1 fc_name
                   (\<lambda>l. l\<lparr>l_occurences := l_occurences l @ [occ_path]\<rparr>))))"

text \<open>The body of the loop over the GeoPackages of one project.\<close>

definition vector_step ::
  "regex_match \<Rightarrow> string list \<Rightarrow> string \<Rightarrow> element \<Rightarrow> vector_catalog \<times> log
     \<Rightarrow> error + (vector_catalog \<times> log)" where
  "vector_step rm regex_list project_xml_path geopackage st =
     (case attrib_get ''id'' geopackage of Inl e \<Rightarrow> Inl e | Inr gpkg_id \<Rightarrow>
      case find_text ''Path'' geopackage of Inl e \<Rightarrow> Inl e | Inr path \<Rightarrow>
      case find_text ''Name'' geopackage of Inl e \<Rightarrow> Inl e | Inr name \<Rightarrow>
      case any_match rm regex_list path of Inl e \<Rightarrow> Inl e | Inr hit \<Rightarrow>
        if \<not> hit then
          Inr (fst st, snd st @ [(Info, ''Skipping non-regex raster '' @ str_opt name
                                        @ '' with path '' @ str_opt path)])
        else
          (case path of
             None \<Rightarrow> Inl TypeError
           | Some p \<Rightarrow>
               (let master_project = fst st;
                    abs = os_path_join (os_path_dirname project_xml_path) p;
                    master_project1 =
                      (if map_of master_project gpkg_id = None
                       then dict_set master_project gpkg_id
                              \<lparr>g_rel_path = p, g_abs_path = abs, g_name = name,
                               g_id = gpkg_id, g_layers = []\<rparr>
                       else master_project)
                in case for_each (layer_step abs) (findall ''Vector'' geopackage)
                          (case map_of master_project1 gpkg_id of
                             None \<Rightarrow> [] | Some g \<Rightarrow> g_layers g) of
                     Inl e \<Rightarrow> Inl e
                   | Inr layers \<Rightarrow>
                       Inr (dict_upd master_project1 gpkg_id (\<lambda>g. g\<lparr>g_layers := layers\<rparr>),
                            snd st))))"

definition get_vector_datasets ::
  "('g, 'v) fs \<Rightarrow> regex_match \<Rightarrow> string \<Rightarrow> vector_catalog \<times> log \<Rightarrow> string list
     \<Rightarrow> error + (vector_catalog \<times> log)" where
  "get_vector_datasets fs rm project_xml_path st regex_list =
     (case ET_parse fs project_xml_path of
        Inl e \<Rightarrow> Inl e
      | Inr tree \<Rightarrow>
          for_each (vector_step rm regex_list project_xml_path)
            (findall ''Geopackage'' tree) st)"

section \<open>Extent files: \<^verbatim>\<open>get_bounds_geojson_file\<close>\<close>

text \<open>
  \<^verbatim>\<open>tree.find('.//ProjectBounds/Path')\<close>: the first \<^verbatim>\<open>Path\<close> child of a \<^verbatim>\<open>ProjectBounds\<close>
  descendant, in document order.
\<close>

definition find_bounds_path :: "element \<Rightarrow> element option" where
  "find_bounds_path tree =
     (case concat (map (\<lambda>b. filter (\<lambda>c. el_tag c = ''Path'') (el_children b))
                       (findall ''ProjectBounds'' tree)) of
        [] \<Rightarrow> None
      | c # _ \<Rightarrow> Some c)"

text \<open>
  The function creates no logger: it returns the list of extent files, longer by one
  when the declared file exists and as it was otherwise.  \<^verbatim>\<open>os.path.join\<close> raises
  \<^verbatim>\<open>TypeError\<close> on a \<^verbatim>\<open>Path\<close> without text.
\<close>

definition get_bounds_geojson_file ::
  "('g, 'v) fs \<Rightarrow> string \<Rightarrow> string list \<Rightarrow> error + string list" where
  "get_bounds_geojson_file fs project_xml_path bounds_files =
     (case ET_parse fs project_xml_path of
        Inl e \<Rightarrow> Inl e
      | Inr tree \<Rightarrow>
          (case find_bounds_path tree of
             None \<Rightarrow> Inl AttributeError
           | Some c \<Rightarrow>
               (case el_text c of
                  None \<Rightarrow> Inl TypeError
                | Some rel_path \<Rightarrow>
                    (let abs_path = os_path_join (os_path_dirname project_xml_path) rel_path
                     in if isfile fs abs_path then Inr (bounds_files @ [abs_path])
                        else Inr bounds_files))))"

section \<open>Raster mosaics: \<^verbatim>\<open>process_rasters\<close>\<close>

text \<open>
  \<^verbatim>\<open>Raster(path)\<close> of \<^verbatim>\<open>rscommons\<close> reads the band's data type and no-data value; it
  fails on a path that holds no raster.
\<close>

definition Raster :: "('g, 'v) fs \<Rightarrow> string \<Rightarrow> error + (int \<times> 'v option)" where
  "Raster fs path =
     (case fs path of
        Some (RasterFile dataType nodata) \<Rightarrow> Inr (dataType, nodata)
      | _ \<Rightarrow> Inl RasterOpenError)"

text \<open>GDAL's codes of the data types the script names.\<close>

definition GDT_Byte :: int where "GDT_Byte = 1"
definition GDT_UInt16 :: int where "GDT_UInt16 = 2"
definition GDT_Int16 :: int where "GDT_Int16 = 3"
definition GDT_UInt32 :: int where "GDT_UInt32 = 4"
definition GDT_Int32 :: int where "GDT_Int32 = 5"

text \<open>The two floating-point types of GDAL, which the script does not name.\<close>

definition GDT_Float32 :: int where "GDT_Float32 = 6"
definition GDT_Float64 :: int where "GDT_Float64 = 7"

text \<open>
  The integer types GDAL has besides the five the script names: unsigned and signed
  64-bit integers and signed 8-bit integers.
\<close>

definition GDT_UInt64 :: int where "GDT_UInt64 = 12"
definition GDT_Int64 :: int where "GDT_Int64 = 13"
definition GDT_Int8 :: int where "GDT_Int8 = 14"

definition integer_raster_enums :: "int list" where
  "integer_raster_enums = [GDT_Byte, GDT_UInt16, GDT_UInt32, GDT_Int16, GDT_Int32]"

definition compression :: "int \<Rightarrow> string" where
  "compression dataType =
     ''COMPRESS='' @ (if dataType \<in> set integer_raster_enums then ''DEFLATE'' else ''LZW'')"

text \<open>\<open>str\<close> is the text an f-string prints for a no-data value.\<close>

definition no_data :: "('v \<Rightarrow> string) \<Rightarrow> 'v option \<Rightarrow> string" where
  "no_data str nodata = (case nodata of Some v \<Rightarrow> ''-a_nodata '' @ str v | None \<Rightarrow> [])"

definition quoted :: "string \<Rightarrow> string" where
  "quoted s = CHR 0x22 # s @ [CHR 0x22]"

text \<open>\<^verbatim>\<open>' '.join(params)\<close>.\<close>

fun join_space :: "string list \<Rightarrow> string" where
  "join_space [] = []"
| "join_space [x] = x"
| "join_space (x # y # ys) = x @ '' '' @ join_space (y # ys)"

text \<open>The decimal text of a length.\<close>

function str_nat :: "nat \<Rightarrow> string" where
  "str_nat n = (if n < 10 then [char_of (48 + n)] else str_nat (n div 10) @ [char_of (48 + n mod 10)])"
  by pat_completeness auto
termination
  by (relation "measure id") auto

definition merge_params :: "string \<Rightarrow> string \<Rightarrow> string \<Rightarrow> string list \<Rightarrow> string list" where
  "merge_params output_raster_path co nd input_rasters =
     [''gdal_merge.py'', ''-o'', quoted output_raster_path, ''-co'', co, nd] @ input_rasters"

text \<open>The deletion loop; \<^verbatim>\<open>raster_path[1:-1]\<close> takes the quotes off again.\<close>

fun delete_sources :: "string list \<Rightarrow> ('g, 'v) fs \<times> log \<Rightarrow> ('g, 'v) fs \<times> log" where
  "delete_sources [] st = st"
| "delete_sources (raster_path # rest) st =
     (let raster_path' = butlast (tl raster_path)
      in if isfile (fst st) raster_path'
         then delete_sources rest
                (os_remove (fst st) raster_path',
                 snd st @ [(Info, ''Deleting source raster '' @ raster_path')])
         else delete_sources rest st)"

text \<open>
  The body of the loop over the raster catalog.  The exit status of the command is
  dropped; the deletion follows whenever \<open>delete_source\<close> is set.
\<close>

definition process_raster ::
  "('v \<Rightarrow> string) \<Rightarrow> ('g, 'v) shell \<Rightarrow> string \<Rightarrow> bool \<Rightarrow> raster_info
     \<Rightarrow> ('g, 'v) fs \<times> log \<Rightarrow> error + (('g, 'v) fs \<times> log)" where
  "process_raster str sh output_dir delete_source raster_info st =
     (let lg1 = snd st @ [(Info, ''Merging '' @ str_nat (length (r_occurences raster_info)) @ '' ''
                                  @ str_opt (r_name raster_info) @ '' rasters.'')];
          output_raster_path = os_path_join output_dir (r_path raster_info)
      in case r_occurences raster_info of
           [] \<Rightarrow> Inl IndexError
         | first # _ \<Rightarrow>
             (case Raster (fst st) first of
                Inl e \<Rightarrow> Inl e
              | Inr (dataType, nodata) \<Rightarrow>
                  (let input_rasters = map quoted (r_occurences raster_info);
                       params_flat = join_space (merge_params output_raster_path
                                       (compression dataType) (no_data str nodata) input_rasters);
                       lg2 = lg1 @ [(Debug, ''EXECUTING: '' @ params_flat)];
                       fs2 = snd (sh None params_flat (fst st))
                   in if delete_source then Inr (delete_sources input_rasters (fs2, lg2))
                      else Inr (fs2, lg2))))"

definition process_rasters ::
  "('v \<Rightarrow> string) \<Rightarrow> ('g, 'v) shell \<Rightarrow> raster_catalog \<Rightarrow> string \<Rightarrow> bool
     \<Rightarrow> ('g, 'v) fs \<times> log \<Rightarrow> error + (('g, 'v) fs \<times> log)" where
  "process_rasters str sh master_project output_dir delete_source st =
     for_each (process_raster str sh output_dir delete_source) (map snd master_project) st"

section \<open>Vector merges: \<^verbatim>\<open>process_vectors\<close>\<close>

definition ogr2ogr_cmd :: "string \<Rightarrow> string \<Rightarrow> string \<Rightarrow> string" where
  "ogr2ogr_cmd feature_class output_gpkg_file input_gpkg_file =
     ''ogr2ogr -f GPKG -makevalid -append  -nln '' @ feature_class @ '' ''
       @ quoted output_gpkg_file @ '' '' @ quoted input_gpkg_file @ '' '' @ feature_class"

fun append_occurences ::
  "('g, 'v) shell \<Rightarrow> string \<Rightarrow> string \<Rightarrow> string \<Rightarrow> string list
     \<Rightarrow> ('g, 'v) fs \<times> log \<Rightarrow> ('g, 'v) fs \<times> log" where
  "append_occurences sh dir out_file feature_class [] st = st"
| "append_occurences sh dir out_file feature_class (input_gpkg_file # rest) st =
     (let cmd = ogr2ogr_cmd feature_class out_file input_gpkg_file
      in append_occurences sh dir out_file feature_class rest
           (snd (sh (Some dir) cmd (fst st)), snd st @ [(Debug, ''EXECUTING: '' @ cmd)]))"

fun append_layers ::
  "('g, 'v) shell \<Rightarrow> string \<Rightarrow> string \<Rightarrow> (string \<times> layer_info) list
     \<Rightarrow> ('g, 'v) fs \<times> log \<Rightarrow> ('g, 'v) fs \<times> log" where
  "append_layers sh dir out_file [] st = st"
| "append_layers sh dir out_file ((feature_class, feature_class_info) # rest) st =
     append_layers sh dir out_file rest
       (append_occurences sh dir out_file feature_class (l_occurences feature_class_info) st)"

definition process_vector ::
  "('g, 'v) shell \<Rightarrow> string \<Rightarrow> gpkg_info \<Rightarrow> ('g, 'v) fs \<times> log \<Rightarrow> ('g, 'v) fs \<times> log" where
  "process_vector sh output_dir gpkg_info st =
     (let lg1 = snd st @ [(Info, ''Processing '' @ str_opt (g_name gpkg_info) @ '' GeoPackage at ''
                                  @ g_rel_path gpkg_info @ '' with ''
                                  @ str_nat (length (g_layers gpkg_info)) @ '' layers.'')];
          output_gpkg = os_path_join output_dir (g_rel_path gpkg_info);
          output_gpkg_file = os_path_basename output_gpkg;
          output_gpkg_dir = os_path_dirname output_gpkg;
          fs1 = (if isfile (fst st) output_gpkg then os_remove (fst st) output_gpkg else fst st)
      in append_layers sh output_gpkg_dir output_gpkg_file (g_layers gpkg_info) (fs1, lg1))"

definition process_vectors ::
  "('g, 'v) shell \<Rightarrow> vector_catalog \<Rightarrow> string \<Rightarrow> ('g, 'v) fs \<times> log \<Rightarrow> ('g, 'v) fs \<times> log" where
  "process_vectors sh master_project output_dir st =
     fold (process_vector sh output_dir) (map snd master_project) st"

section \<open>The spatial union: \<^verbatim>\<open>union_polygons\<close>\<close>

text \<open>
  The operations of the geometry engine the script calls: the union of two geometries,
  the polygon made of the first ring of a geometry, its centroid and its envelope.
\<close>

record ('g, 'c, 'r) ogr =
  ogr_Union :: "'g \<Rightarrow> 'g \<Rightarrow> 'g"
  ogr_first_ring :: "'g \<Rightarrow> 'g"
  ogr_Centroid :: "'g \<Rightarrow> 'c"
  ogr_GetEnvelope :: "'g \<Rightarrow> 'r"

text \<open>
  Reading one extent file: \<^verbatim>\<open>open\<close> raises on a missing file, \<^verbatim>\<open>json.load\<close> raises a
  \<^verbatim>\<open>ValueError\<close> on a file that is not JSON, and the subscripts raise on JSON without a
  first feature.
\<close>

definition load_extent :: "('g, 'v) fs \<Rightarrow> string \<Rightarrow> error + 'g" where
  "load_extent fs input_file =
     (case fs input_file of
        None \<Rightarrow> Inl FileNotFoundError
      | Some (GeoJsonFile (Some g)) \<Rightarrow> Inr g
      | Some (GeoJsonFile None) \<Rightarrow> Inl KeyError
      | Some _ \<Rightarrow> Inl ValueError)"

text \<open>The first loop: the features of the memory layer, in the order of the input files.\<close>

fun load_extents :: "('g, 'v) fs \<Rightarrow> string list \<Rightarrow> error + 'g list" where
  "load_extents fs [] = Inr []"
| "load_extents fs (input_file # rest) =
     (case load_extent fs input_file of
        Inl e \<Rightarrow> Inl e
      | Inr g \<Rightarrow> (case load_extents fs rest of Inl e \<Rightarrow> Inl e | Inr gs \<Rightarrow> Inr (g # gs)))"

text \<open>One turn of the second loop: the first feature seeds the accumulator.\<close>

definition union_step :: "('g, 'c, 'r) ogr \<Rightarrow> 'g \<Rightarrow> 'g option \<Rightarrow> 'g option" where
  "union_step eng feature union_result =
     (case union_result of
        None \<Rightarrow> Some feature
      | Some u \<Rightarrow> Some (ogr_Union eng u feature))"

text \<open>
  The accumulator is still \<^verbatim>\<open>None\<close> after the loop over an empty layer, and
  \<^verbatim>\<open>union_result.GetGeometryRef(0)\<close> raises \<^verbatim>\<open>AttributeError\<close> on it, before the output file
  is created.
\<close>

definition union_polygons ::
  "('g, 'c, 'r) ogr \<Rightarrow> ('g, 'v) fs \<Rightarrow> string list \<Rightarrow> string
     \<Rightarrow> error + (('c \<times> 'r) \<times> ('g, 'v) fs)" where
  "union_polygons eng fs input_geojson_files output_geojson_file =
     (case load_extents fs input_geojson_files of
        Inl e \<Rightarrow> Inl e
      | Inr features \<Rightarrow>
          (case fold (union_step eng) features None of
             None \<Rightarrow> Inl AttributeError
           | Some union_result \<Rightarrow>
               (let clean_polygon = ogr_first_ring eng union_result;
                    centroid = ogr_Centroid eng clean_polygon;
                    bounding_rect = ogr_GetEnvelope eng clean_polygon
                in Inr ((centroid, bounding_rect),
                        fs(output_geojson_file \<mapsto> GeoJsonFile (Some clean_polygon))))))"

section \<open>The merge: \<^verbatim>\<open>merge_projects\<close>\<close>

record project =
  p_id :: string

record merge_state =
  first_project_xml :: "string option"
  project_rasters :: raster_catalog
  project_vectors :: vector_catalog
  bounds_geojson_files :: "string list"
  logged :: log

text \<open>
  The body of the loop over \<^verbatim>\<open>projects_lookup.items()\<close>.  \<^verbatim>\<open>os.path.join\<close> always returns
  a string, written \<open>Some\<close> here so that the test \<^verbatim>\<open>project_xml is None\<close> of the source has
  its branch.  The assignment to \<^verbatim>\<open>first_project_xml\<close> is made on every turn.  None of
  the three calls is inside a \<^verbatim>\<open>try\<close>.
\<close>

definition project_step ::
  "('g, 'v) fs \<Rightarrow> regex_match \<Rightarrow> string list \<Rightarrow> string \<times> project \<Rightarrow> merge_state
     \<Rightarrow> error + merge_state" where
  "project_step fs rm regex_list item st =
     (case Some (os_path_join (fst item) ''project.rs.xml'') of
        None \<Rightarrow>
          Inr (st\<lparr>logged := logged st
                   @ [(Warning, ''Skipping project with no project.rs.xml file '' @ p_id (snd item))]\<rparr>)
      | Some project_xml \<Rightarrow>
          (case get_raster_datasets fs rm project_xml (project_rasters st, logged st) regex_list of
             Inl e \<Rightarrow> Inl e
           | Inr (rasters, lg1) \<Rightarrow>
          (case get_vector_datasets fs rm project_xml (project_vectors st, lg1) regex_list of
             Inl e \<Rightarrow> Inl e
           | Inr (vectors, lg2) \<Rightarrow>
          (case get_bounds_geojson_file fs project_xml (bounds_geojson_files st) of
             Inl e \<Rightarrow> Inl e
           | Inr bounds \<Rightarrow>
               Inr \<lparr>first_project_xml = Some project_xml, project_rasters = rasters,
                    project_vectors = vectors, bounds_geojson_files = bounds,
                    logged = lg2\<rparr>))))"

definition merge_loop ::
  "('g, 'v) fs \<Rightarrow> regex_match \<Rightarrow> string list \<Rightarrow> (string \<times> project) list
     \<Rightarrow> error + merge_state" where
  "merge_loop fs rm regex_list projects_lookup =
     for_each (project_step fs rm regex_list) projects_lookup
       \<lparr>first_project_xml = None, project_rasters = [], project_vectors = [],
        bounds_geojson_files = [],
        logged = [(Info, ''Merging '' @ str_nat (length projects_lookup) @ '' project(s)'')]\<rparr>"

text \<open>
  What the script has in hand when it starts to rewrite the project: the file it loaded
  as the template and its tree, the new name, the centroid and the envelope of the union,
  the files and the log.
\<close>

record ('g, 'v, 'c, 'r) merged =
  template_xml :: string
  template :: element
  merged_name :: string
  centroid :: 'c
  bounding_rect :: 'r
  files :: "('g, 'v) fs"
  merge_log :: log

text \<open>
  \<^verbatim>\<open>merge_projects\<close> down to \<^verbatim>\<open>merge_project.name = name\<close>.  \<^verbatim>\<open>Project.load_project\<close> reads the
  tree of the file named by \<^verbatim>\<open>first_project_xml\<close>.
\<close>

definition merge_projects ::
  "('v \<Rightarrow> string) \<Rightarrow> ('g, 'v) shell \<Rightarrow> ('g, 'c, 'r) ogr \<Rightarrow> regex_match \<Rightarrow> ('g, 'v) fs
     \<Rightarrow> (string \<times> project) list \<Rightarrow> string \<Rightarrow> string \<Rightarrow> string list \<Rightarrow> bool
     \<Rightarrow> error + ('g, 'v, 'c, 'r) merged" where
  "merge_projects str sh eng rm fs projects_lookup merged_dir name regex_list delete_source =
     (case merge_loop fs rm regex_list projects_lookup of
        Inl e \<Rightarrow> Inl e
      | Inr st \<Rightarrow>
     (case process_rasters str sh (project_rasters st) merged_dir delete_source (fs, logged st) of
        Inl e \<Rightarrow> Inl e
      | Inr st1 \<Rightarrow>
     (let st2 = process_vectors sh (project_vectors st) merged_dir st1;
          output_bounds_path = os_path_join merged_dir ''project_bounds.geojson''
      in case union_polygons eng (fst st2) (bounds_geojson_files st) output_bounds_path of
           Inl e \<Rightarrow> Inl e
         | Inr ((c, r), fs3) \<Rightarrow>
             (case first_project_xml st of
                None \<Rightarrow> Inl TypeError
              | Some xml \<Rightarrow>
                  (case ET_parse fs3 xml of
                     Inl e \<Rightarrow> Inl e
                   | Inr tree \<Rightarrow>
                       Inr \<lparr>template_xml = xml, template = tree, merged_name = name,
                            centroid = c, bounding_rect = r, files = fs3,
                            merge_log = snd st2\<rparr>)))))"

section \<open>Descriptions used in the statements\<close>

text \<open>
  A \<^verbatim>\<open>Path\<close> element, given by its position and text, whose text ends in none of the
  strings of \<open>file_ext\<close>, and the parents of such elements in document order.
\<close>

definition unkept :: "str_lower \<Rightarrow> pos \<times> string option \<Rightarrow> bool" where
  "unkept lower d = (case snd d of None \<Rightarrow> False | Some t \<Rightarrow> length (matches lower t) = 0)"

definition unkept_parents :: "str_lower \<Rightarrow> (pos \<times> string option) list \<Rightarrow> pos list" where
  "unkept_parents lower ds = map (butlast \<circ> fst) (filter (unkept lower) ds)"

definition removal_log :: "str_lower \<Rightarrow> (pos \<times> string option) list \<Rightarrow> log" where
  "removal_log lower ds =
     map (\<lambda>d. (Info, ''Removing non GeoPackage, raster or log with contents '' @ str_opt (snd d)))
         (filter (unkept lower) ds)"

text \<open>
  The element at position \<open>p\<close>, below the element at \<open>q\<close>, is still in the tree after the
  children at the positions in \<open>R\<close> have been taken out: neither the element nor an element
  around it, up to \<open>q\<close>, is at a position in \<open>R\<close>.
\<close>

definition kept_below :: "pos set \<Rightarrow> pos \<Rightarrow> pos \<Rightarrow> bool" where
  "kept_below R q p = (\<forall>k \<in> set [Suc (length q)..<Suc (length p)]. take k p \<notin> R)"

text \<open>
  The retention rule in the specification's words: the file extension of a path is what
  follows the last dot of its last component, and a path is retained when its extension
  is one of the retained artifact kinds.
\<close>

definition spec_file_extension :: "string \<Rightarrow> string" where
  "spec_file_extension path =
     (let base = os_path_basename path
      in if CHR ''.'' \<in> set base then rev (takeWhile (\<lambda>c. c \<noteq> CHR ''.'') (rev base)) else [])"

definition spec_retained_kind :: "str_lower \<Rightarrow> string \<Rightarrow> bool" where
  "spec_retained_kind lower path = (lower (spec_file_extension path) \<in> set file_ext)"

text \<open>
  The integer-valued sample types in the specification's sense: every integer type of
  GDAL, named in the script or not.
\<close>

definition integer_valued :: "int \<Rightarrow> bool" where
  "integer_valued dataType =
     (dataType \<in> {GDT_Byte, GDT_Int8, GDT_UInt16, GDT_Int16, GDT_UInt32, GDT_Int32,
                   GDT_UInt64, GDT_Int64})"




section \<open>Concrete inputs\<close>

text \<open>
  The case mapping on ASCII text, where \<^verbatim>\<open>str.lower\<close> turns the letters \<^verbatim>\<open>A\<close> to \<^verbatim>\<open>Z\<close> into
  \<^verbatim>\<open>a\<close> to \<^verbatim>\<open>z\<close> and leaves every other character as it is.  The texts of the examples are
  ASCII.
\<close>

definition lower_char :: "char \<Rightarrow> char" where
  "lower_char c =
     (let n = (of_char c :: nat) in if 65 \<le> n \<and> n \<le> 90 then char_of (n + 32) else c)"

definition ascii_lower :: str_lower where
  "ascii_lower s = map lower_char s"

text \<open>
  A small geometry engine for the examples: a geometry is a set of numbered grid cells,
  the union is the union of the sets, a set of cells has no inner ring, and the centroid
  and the envelope are read off the least and the greatest cell.  A no-data value is
  held as the text Python prints for it.
\<close>

definition cell_engine :: "(nat set, nat, nat \<times> nat) ogr" where
  "cell_engine =
     \<lparr>ogr_Union = (\<union>), ogr_first_ring = (\<lambda>g. g),
      ogr_Centroid = (\<lambda>g. (Min g + Max g) div 2), ogr_GetEnvelope = (\<lambda>g. (Min g, Max g))\<rparr>"

definition extent_files :: "(nat set, string) fs" where
  "extent_files =
     map_of [(''A/project_bounds.geojson'', GeoJsonFile (Some {0, 1})),
             (''B/project_bounds.geojson'', GeoJsonFile (Some {1, 2})),
             (''C/project_bounds.geojson'', GeoJsonFile (Some {5}))]"

text \<open>
  A metadata tree declaring a raster \<^verbatim>\<open>dem.tif\<close>, a GeoPackage and a report
  \<^verbatim>\<open>report.html\<close>, and what the pruning pass leaves of it.
\<close>

definition datasets_of :: "string \<Rightarrow> element list" where
  "datasets_of nm =
     [Element ''Raster'' [(''id'', ''DEM'')] None
        [Element ''Name'' [] (Some (''DEM '' @ nm)) [],
         Element ''Path'' [] (Some ''topo/dem.tif'') []],
      Element ''Geopackage'' [(''id'', ''NETWORK'')] None
        [Element ''Name'' [] (Some (''Network '' @ nm)) [],
         Element ''Path'' [] (Some ''outputs/network.gpkg'') [],
         Element ''Layers'' [] None
           [Element ''Vector'' [(''lyrName'', ''reaches'')] None
              [Element ''Name'' [] (Some ''Reaches'') []]]]]"

definition report_entry :: element where
  "report_entry =
     Element ''HTMLFile'' [(''id'', ''REPORT'')] None
       [Element ''Name'' [] (Some ''Report'') [],
        Element ''Path'' [] (Some ''outputs/report.html'') []]"

definition project_tree :: "string \<Rightarrow> element list \<Rightarrow> element" where
  "project_tree nm datasets =
     Element ''Project'' [] None
       [Element ''Name'' [] (Some nm) [],
        Element ''ProjectBounds'' [] None
          [Element ''Path'' [] (Some ''project_bounds.geojson'') []],
        Element ''Realizations'' [] None
          [Element ''Realization'' [] None
             [Element ''Datasets'' [] None datasets]]]"

definition tree_A :: element where
  "tree_A = project_tree ''A'' (datasets_of ''A'' @ [report_entry])"

definition tree_A_pruned :: element where
  "tree_A_pruned = project_tree ''A'' (datasets_of ''A'')"

text \<open>A tree whose only declared path ends in \<^verbatim>\<open>log\<close> without a dot before it.\<close>

definition catalog_tree :: element where
  "catalog_tree =
     Element ''Project'' [] None
       [Element ''Datasets'' [] None
          [Element ''File'' [(''id'', ''NOTES'')] None
             [Element ''Name'' [] (Some ''Notes'') [],
              Element ''Path'' [] (Some ''outputs/notes.catalog'') []]]]"

text \<open>
  A second project that declares the same identities under other display names and other
  paths.
\<close>

definition datasets_B :: "element list" where
  "datasets_B =
     [Element ''Raster'' [(''id'', ''DEM'')] None
        [Element ''Name'' [] (Some ''Elevation'') [],
         Element ''Path'' [] (Some ''inputs/elevation.tif'') []],
      Element ''Geopackage'' [(''id'', ''NETWORK'')] None
        [Element ''Name'' [] (Some ''Streams'') [],
         Element ''Path'' [] (Some ''inputs/streams.gpkg'') [],
         Element ''Layers'' [] None
           [Element ''Vector'' [(''lyrName'', ''reaches'')] None
              [Element ''Name'' [] (Some ''Stream reaches'') []]]]]"

definition tree_B :: element where
  "tree_B = project_tree ''B'' datasets_B"

text \<open>
  The files of the two projects, and of a third directory whose \<^verbatim>\<open>project.rs.xml\<close> is not
  XML.  Project \<^verbatim>\<open>B\<close> has no extent file on disk.
\<close>

definition merge_files :: "(nat set, string) fs" where
  "merge_files =
     map_of [(''A/project.rs.xml'', XmlFile tree_A),
             (''A/project_bounds.geojson'', GeoJsonFile (Some {0, 1})),
             (''A/topo/dem.tif'', RasterFile 6 (Some ''-9999.0'')),
             (''A/outputs/network.gpkg'', OtherFile),
             (''A/outputs/report.html'', OtherFile),
             (''B/project.rs.xml'', XmlFile tree_B),
             (''B/inputs/elevation.tif'', RasterFile 6 (Some ''-9999.0'')),
             (''B/inputs/streams.gpkg'', OtherFile),
             (''X/project.rs.xml'', OtherFile)]"

text \<open>A matcher that knows the pattern \<^verbatim>\<open>.*\<close>, which matches every path, and no other.\<close>

definition match_all :: regex_match where
  "match_all x path = (x = ''.*'')"


definition rasters_AB :: raster_catalog where
  "rasters_AB =
     [(''DEM'', \<lparr>r_path = ''topo/dem.tif'', r_name = Some ''DEM A'', r_id = ''DEM'',
                 r_occurences = [''A/topo/dem.tif'', ''B/inputs/elevation.tif'']\<rparr>)]"



text \<open>
  Two command runners that leave the files as they are: one reports success, the other
  the exit status 1 of a failed command.
\<close>

definition ok_shell :: "(nat set, string) shell" where
  "ok_shell cwd cmd fs = (0, fs)"

definition failing_shell :: "(nat set, string) shell" where
  "failing_shell cwd cmd fs = (1, fs)"

text \<open>A catalog entry for a raster of bytes that declares no no-data value.\<close>

definition landcover_files :: "(nat set, string) fs" where
  "landcover_files = map_of [(''A/landcover.tif'', RasterFile 1 None)]"

definition landcover_info :: raster_info where
  "landcover_info =
     \<lparr>r_path = ''landcover.tif'', r_name = Some ''Land cover'', r_id = ''LANDCOVER'',
      r_occurences = [''A/landcover.tif'']\<rparr>"

text \<open>
  An entry that declares two paths, one ending in \<^verbatim>\<open>log\<close> and a report, and what the pass
  leaves of the tree.
\<close>

definition two_path_tree :: element where
  "two_path_tree =
     Element ''Project'' [] None
       [Element ''Datasets'' [] None
          [Element ''File'' [(''id'', ''DOCS'')] None
             [Element ''Name'' [] (Some ''Documents'') [],
              Element ''Path'' [] (Some ''docs/catalog'') [],
              Element ''Path'' [] (Some ''outputs/report.html'') []]]]"

definition two_path_tree_pruned :: element where
  "two_path_tree_pruned = Element ''Project'' [] None [Element ''Datasets'' [] None []]"

text \<open>
  Three entries side by side: the paths of the first and the third end in \<^verbatim>\<open>log\<close> and in
  \<^verbatim>\<open>TIF\<close> with no dot before, the second is a report.
\<close>

definition notes_entry :: element where
  "notes_entry =
     Element ''File'' [(''id'', ''NOTES'')] None
       [Element ''Name'' [] (Some ''Notes'') [],
        Element ''Path'' [] (Some ''outputs/notes.catalog'') []]"

definition motif_entry :: element where
  "motif_entry =
     Element ''File'' [(''id'', ''MOTIF'')] None
       [Element ''Name'' [] (Some ''Motif'') [],
        Element ''Path'' [] (Some ''outputs/MOTIF'') []]"

definition mixed_tree :: element where
  "mixed_tree =
     Element ''Project'' [] None
       [Element ''Datasets'' [] None [notes_entry, report_entry, motif_entry]]"

definition mixed_tree_pruned :: element where
  "mixed_tree_pruned =
     Element ''Project'' [] None
       [Element ''Datasets'' [] None [notes_entry, motif_entry]]"

text \<open>A catalog entry for a raster of signed 64-bit integers.\<close>

definition counts_files :: "(nat set, string) fs" where
  "counts_files = map_of [(''A/counts.tif'', RasterFile 13 (Some ''-1''))]"

definition counts_info :: raster_info where
  "counts_info =
     \<lparr>r_path = ''counts.tif'', r_name = Some ''Counts'', r_id = ''COUNTS'',
      r_occurences = [''A/counts.tif'']\<rparr>"

section \<open>The spatial union\<close>

lemma load_extents_all:
  "\<forall>f \<in> set fls. \<exists>g. fs f = Some (GeoJsonFile (Some g)) \<Longrightarrow>
   load_extents fs fls = Inr (map (\<lambda>f. case fs f of Some (GeoJsonFile (Some g)) \<Rightarrow> g) fls)"
  by (induction fls) (auto simp: load_extent_def)

lemma union_step_commute:
  assumes comm: "\<And>a b. ogr_Union eng a b = ogr_Union eng b a"
    and assoc: "\<And>a b c. ogr_Union eng (ogr_Union eng a b) c = ogr_Union eng a (ogr_Union eng b c)"
  shows "union_step eng x \<circ> union_step eng y = union_step eng y \<circ> union_step eng x"
proof
  fix acc :: "'a option"
  show "(union_step eng x \<circ> union_step eng y) acc = (union_step eng y \<circ> union_step eng x) acc"
  proof (cases acc)
    case None
    then show ?thesis by (simp add: union_step_def comm)
  next
    case (Some u)
    have "ogr_Union eng (ogr_Union eng u y) x = ogr_Union eng (ogr_Union eng u x) y"
      by (metis comm assoc)
    with Some show ?thesis by (simp add: union_step_def)
  qed
qed

text \<open>
  C2, as the code has it: on an empty list of extent files the union raises the attribute
  error of the unset accumulator; it returns no result and writes no file.
\<close>

theorem union_polygons_empty_attribute_error:
  "union_polygons eng fs [] output_geojson_file = Inl AttributeError"
  by (simp add: union_polygons_def)

text \<open>
  C2, as the specification has it, fails: the error of the empty input is not
  \<open>InsufficientInputError\<close>.
\<close>

theorem union_polygons_empty_counterexample:
  "union_polygons cell_engine extent_files [] ''merged/project_bounds.geojson''
     \<noteq> Inl InsufficientInputError"
  by (simp add: union_polygons_def)

text \<open>
  C7: for a union operation of the engine that is commutative and associative, the
  spatial union of a non-empty list of readable extent files does not depend on the order
  of the list: the centroid, the envelope and the polygon written are the same for every
  permutation.
\<close>

theorem union_polygons_permutation:
  assumes comm: "\<And>a b. ogr_Union eng a b = ogr_Union eng b a"
    and assoc: "\<And>a b c. ogr_Union eng (ogr_Union eng a b) c = ogr_Union eng a (ogr_Union eng b c)"
    and readable: "\<forall>f \<in> set fls. \<exists>g. fs f = Some (GeoJsonFile (Some g))"
    and nonempty: "fls \<noteq> []"
    and perm: "mset fls' = mset fls"
  shows "union_polygons eng fs fls' out = union_polygons eng fs fls out
         \<and> (\<exists>res. union_polygons eng fs fls out = Inr res)"
proof -
  let ?g = "\<lambda>f. case fs f of Some (GeoJsonFile (Some g)) \<Rightarrow> g"
  have set_eq: "set fls' = set fls" using perm by (metis set_mset_mset)
  have l: "load_extents fs fls = Inr (map ?g fls)"
    using readable by (rule load_extents_all)
  have l': "load_extents fs fls' = Inr (map ?g fls')"
    using readable set_eq by (intro load_extents_all) simp
  have m: "mset (map ?g fls') = mset (map ?g fls)" using perm by simp
  have f: "fold (union_step eng) (map ?g fls') = fold (union_step eng) (map ?g fls)"
    using m by (intro fold_multiset_equiv) (simp_all add: union_step_commute [OF comm assoc])
  obtain x rest where c: "fls = x # rest" using nonempty by (cases fls) auto
  have some: "\<And>gs acc. acc \<noteq> None \<Longrightarrow> fold (union_step eng) gs acc \<noteq> None"
  proof -
    fix gs :: "'a list" and acc :: "'a option"
    show "acc \<noteq> None \<Longrightarrow> fold (union_step eng) gs acc \<noteq> None"
      by (induction gs arbitrary: acc) (auto simp: union_step_def split: option.splits)
  qed
  have "fold (union_step eng) (map ?g fls) None \<noteq> None"
    using some [of "Some (?g x)" "map ?g rest"] by (simp add: c union_step_def)
  then obtain u where u: "fold (union_step eng) (map ?g fls) None = Some u" by auto
  show ?thesis by (simp add: union_polygons_def l l' f u Let_def)
qed

theorem union_polygons_permutation_witness:
  "union_polygons cell_engine extent_files
       [''C/project_bounds.geojson'', ''A/project_bounds.geojson'', ''B/project_bounds.geojson'']
       ''merged/project_bounds.geojson''
     = union_polygons cell_engine extent_files
       [''A/project_bounds.geojson'', ''B/project_bounds.geojson'', ''C/project_bounds.geojson'']
       ''merged/project_bounds.geojson''
   \<and> (\<exists>res. union_polygons cell_engine extent_files
       [''A/project_bounds.geojson'', ''B/project_bounds.geojson'', ''C/project_bounds.geojson'']
       ''merged/project_bounds.geojson'' = Inr res)"
proof -
  have comm: "\<And>a b. ogr_Union cell_engine a b = ogr_Union cell_engine b a"
    by (auto simp: cell_engine_def)
  have assoc: "\<And>a b c. ogr_Union cell_engine (ogr_Union cell_engine a b) c
                 = ogr_Union cell_engine a (ogr_Union cell_engine b c)"
    by (auto simp: cell_engine_def)
  have readable: "\<forall>f \<in> set [''A/project_bounds.geojson'', ''B/project_bounds.geojson'',
                           ''C/project_bounds.geojson''].
                    \<exists>g. extent_files f = Some (GeoJsonFile (Some g))"
    by (simp add: extent_files_def)
  have perm: "mset [''C/project_bounds.geojson'', ''A/project_bounds.geojson'',
                    ''B/project_bounds.geojson'']
              = mset [''A/project_bounds.geojson'', ''B/project_bounds.geojson'',
                      ''C/project_bounds.geojson'']"
    by (simp add: add_mset_commute)
  show ?thesis
    using union_polygons_permutation [OF comm assoc readable _ perm] by simp
qed

section \<open>The pruning pass\<close>

lemma endswith_suffix: "endswith s ext = suffix ext s"
  unfolding endswith_def suffix_def
  by (metis add_diff_cancel_right' append_eq_conv_conj le_add2 length_append
        append_take_drop_id length_drop)

lemma matches_empty_iff:
  "(length (matches lower t) = 0) = (\<forall>ext \<in> set file_ext. \<not> suffix ext (lower t))"
  by (auto simp: matches_def filter_empty_conv endswith_suffix)

lemma prune_loop_total:
  assumes "\<forall>d \<in> set ds. snd d \<noteq> None"
    and "distinct (removed @ unkept_parents lower ds)"
    and "[] \<notin> set (unkept_parents lower ds)"
  shows "prune_loop lower ds removed lg
           = Inr (removed @ unkept_parents lower ds, lg @ removal_log lower ds)"
  using assms
proof (induction ds arbitrary: removed lg)
  case Nil
  then show ?case by (simp add: unkept_parents_def removal_log_def)
next
  case (Cons d ds)
  obtain p tx where d: "d = (p, tx)" by (cases d)
  from Cons.prems(1) d obtain t where t: "tx = Some t" by auto
  show ?case
  proof (cases "length (matches lower t) = 0")
    case True
    then have u: "unkept_parents lower (d # ds) = butlast p # unkept_parents lower ds"
      and r: "removal_log lower (d # ds)
                = (Info, ''Removing non GeoPackage, raster or log with contents '' @ t)
                  # removal_log lower ds"
      by (simp_all add: unkept_parents_def removal_log_def unkept_def str_opt_def d t)
    from Cons.prems(3) u have ne: "butlast p \<noteq> []" by auto
    from Cons.prems(2) u have nr: "butlast p \<notin> set removed" by auto
    have "prune_loop lower ds (removed @ [butlast p])
            (lg @ [(Info, ''Removing non GeoPackage, raster or log with contents '' @ t)])
          = Inr ((removed @ [butlast p]) @ unkept_parents lower ds,
                 (lg @ [(Info, ''Removing non GeoPackage, raster or log with contents '' @ t)])
                 @ removal_log lower ds)"
      using Cons.prems u by (intro Cons.IH) auto
    then show ?thesis using True ne nr u r by (simp add: d t Let_def)
  next
    case False
    then have u: "unkept_parents lower (d # ds) = unkept_parents lower ds"
      and r: "removal_log lower (d # ds) = removal_log lower ds"
      by (simp_all add: unkept_parents_def removal_log_def unkept_def d t)
    have "prune_loop lower ds removed lg
            = Inr (removed @ unkept_parents lower ds, lg @ removal_log lower ds)"
      using Cons.prems u by (intro Cons.IH) auto
    then show ?thesis using False u r by (simp add: d t)
  qed
qed

lemma delete_unmerged_paths_tree_result:
  assumes "\<forall>d \<in> set (findall_pos ''Path'' [] root). snd d \<noteq> None"
    and "distinct (unkept_parents lower (findall_pos ''Path'' [] root))"
    and "[] \<notin> set (unkept_parents lower (findall_pos ''Path'' [] root))"
  shows "delete_unmerged_paths_tree lower root
           = Inr (prune (set (unkept_parents lower (findall_pos ''Path'' [] root))) [] root,
                  removal_log lower (findall_pos ''Path'' [] root))"
proof -
  have "prune_loop lower (findall_pos ''Path'' [] root) [] []
          = Inr ([] @ unkept_parents lower (findall_pos ''Path'' [] root),
                 [] @ removal_log lower (findall_pos ''Path'' [] root))"
    using assms by (intro prune_loop_total) simp_all
  then show ?thesis by (simp add: delete_unmerged_paths_tree_def)
qed

lemma findall_pos_prefix:
  "d \<in> set (findall_pos tg q e) \<Longrightarrow> \<exists>j r. fst d = q @ j # r"
  "d \<in> set (findall_pos_list tg q i cs) \<Longrightarrow> \<exists>j r. fst d = q @ j # r"
proof (induction tg q e and tg q i cs rule: findall_pos_findall_pos_list.induct)
  case (1 tg p t a x cs)
  then show ?case by simp
next
  case (2 tg p i)
  then show ?case by simp
next
  case (3 tg p i c cs)
  from "3.prems" consider "fst d = p @ [i]" | "d \<in> set (findall_pos tg (p @ [i]) c)"
    | "d \<in> set (findall_pos_list tg p (Suc i) cs)"
    by (auto split: if_splits)
  then show ?case
  proof cases
    case 1
    then show ?thesis by simp
  next
    case 2
    from "3.IH"(1) [OF this] show ?thesis by auto
  next
    case 3
    from "3.IH"(2) [OF this] show ?thesis .
  qed
qed

lemma kept_below_step:
  "kept_below R q (q @ i # r) = (q @ [i] \<notin> R \<and> kept_below R (q @ [i]) (q @ i # r))"
proof -
  have "[Suc (length q)..<Suc (length (q @ i # r))]
          = Suc (length q) # [Suc (length (q @ [i]))..<Suc (length (q @ i # r))]"
    by (subst upt_conv_Cons) simp_all
  then show ?thesis by (simp add: kept_below_def)
qed

lemma kept_below_self: "kept_below R q (q @ [i]) = (q @ [i] \<notin> R)"
  using kept_below_step [of R q i "[]"] by (simp add: kept_below_def)

lemma prune_tag_text: "el_tag (prune R q e) = el_tag e" "el_text (prune R q e) = el_text e"
  by (cases e; simp)+

lemma filter_below_removed:
  assumes "q @ [i] \<in> R"
  shows "filter (\<lambda>d. kept_below R q (fst d)) (findall_pos tg (q @ [i]) c) = []"
  unfolding filter_empty_conv
proof
  fix d assume "d \<in> set (findall_pos tg (q @ [i]) c)"
  from findall_pos_prefix(1) [OF this] obtain j r where "fst d = q @ i # j # r" by auto
  with assms kept_below_step [of R q i "j # r"] show "\<not> kept_below R q (fst d)" by simp
qed

lemma filter_below_kept:
  assumes "q @ [i] \<notin> R"
  shows "filter (\<lambda>d. kept_below R q (fst d)) (findall_pos tg (q @ [i]) c)
           = filter (\<lambda>d. kept_below R (q @ [i]) (fst d)) (findall_pos tg (q @ [i]) c)"
proof (rule filter_cong [OF refl])
  fix d assume "d \<in> set (findall_pos tg (q @ [i]) c)"
  from findall_pos_prefix(1) [OF this] obtain j r where "fst d = q @ i # j # r" by auto
  with assms kept_below_step [of R q i "j # r"]
  show "kept_below R q (fst d) = kept_below R (q @ [i]) (fst d)" by simp
qed

lemma pruned_texts:
  "map el_text (findall tg (prune R q e))
     = map snd (filter (\<lambda>d. kept_below R q (fst d)) (findall_pos tg q e))"
  "map el_text (findall_list tg (prune_list R q i cs))
     = map snd (filter (\<lambda>d. kept_below R q (fst d)) (findall_pos_list tg q i cs))"
proof (induction R q e and R q i cs rule: prune_prune_list.induct)
  case (1 R p t a x cs)
  then show ?case by simp
next
  case (2 R p i)
  then show ?case by simp
next
  case (3 R p i c cs)
  show ?case
  proof (cases "p @ [i] \<in> R")
    case True
    then show ?thesis
      using "3.IH"(2) filter_below_removed [OF True] kept_below_self [of R p i]
      by simp
  next
    case False
    then show ?thesis
      using "3.IH"(1) [OF False] "3.IH"(2) filter_below_kept [OF False]
        kept_below_self [of R p i]
      by (simp add: prune_tag_text)
  qed
qed

text \<open>
  C8, as the code has it: the list is called \<^verbatim>\<open>file_ext\<close>, but the test is
  \<^verbatim>\<open>endswith\<close> on the whole text with no dot before the literal.  The file extension of
  \<^verbatim>\<open>outputs/notes.catalog\<close> is \<^verbatim>\<open>catalog\<close>, not a retained kind, and the pass leaves its
  entry in the tree; the entry of \<^verbatim>\<open>report.html\<close> goes and the entry of \<^verbatim>\<open>dem.tif\<close> stays, as
  the specification asks.
\<close>

theorem catalog_extension_entry_retained:
  "spec_file_extension ''outputs/notes.catalog'' = ''catalog''
   \<and> \<not> spec_retained_kind ascii_lower ''outputs/notes.catalog''
   \<and> delete_unmerged_paths_tree ascii_lower catalog_tree = Inr (catalog_tree, [])
   \<and> delete_unmerged_paths_tree ascii_lower tree_A
       = Inr (tree_A_pruned,
              [(Info, ''Removing non GeoPackage, raster or log with contents outputs/report.html'')])"
  by code_simp

text \<open>
  C10, as the code has it: a declared path passes the retention test exactly when its
  lower-cased text ends in one of the five strings, no dot being asked for, so a path
  ending in \<^verbatim>\<open>catalog\<close> or \<^verbatim>\<open>motif\<close> passes and never causes a removal.  For a tree in which
  every \<^verbatim>\<open>Path\<close> has text, no entry to remove is the root and no entry holds two paths that
  fail the test, the pass returns the tree without the entries that are the parent of a
  failing path, with one log line for each, and the declarations left are those of the
  paths with no removed entry around them: a passing declaration is retained unless its
  entry, or an entry around it, is the parent of a path that fails.
\<close>

theorem suffix_test_per_path:
  assumes "\<forall>d \<in> set (findall_pos ''Path'' [] root). snd d \<noteq> None"
    and "distinct (unkept_parents lower (findall_pos ''Path'' [] root))"
    and "[] \<notin> set (unkept_parents lower (findall_pos ''Path'' [] root))"
  shows "delete_unmerged_paths_tree lower root
           = Inr (prune (set (unkept_parents lower (findall_pos ''Path'' [] root))) [] root,
                  removal_log lower (findall_pos ''Path'' [] root))
     \<and> map el_text (findall ''Path''
          (prune (set (unkept_parents lower (findall_pos ''Path'' [] root))) [] root))
         = map snd (filter (\<lambda>d. kept_below
                                   (set (unkept_parents lower (findall_pos ''Path'' [] root)))
                                   [] (fst d))
                      (findall_pos ''Path'' [] root))
     \<and> (\<forall>p t. unkept lower (p, Some t)
               = (\<forall>ext \<in> set [''gpkg'', ''geojson'', ''tif'', ''tiff'', ''log''].
                    \<not> suffix ext (lower t)))"
proof -
  have "\<forall>p t. unkept lower (p, Some t)
               = (\<forall>ext \<in> set [''gpkg'', ''geojson'', ''tif'', ''tiff'', ''log''].
                    \<not> suffix ext (lower t))"
    using matches_empty_iff [of lower] by (simp add: unkept_def file_ext_def)
  with delete_unmerged_paths_tree_result [OF assms] pruned_texts(1) show ?thesis by blast
qed

text \<open>
  Three entries side by side: the report goes, and the entries whose paths end in
  \<^verbatim>\<open>catalog\<close> and in \<^verbatim>\<open>MOTIF\<close> stay.
\<close>

theorem suffix_test_per_path_witness:
  "delete_unmerged_paths_tree ascii_lower mixed_tree
     = Inr (mixed_tree_pruned,
            [(Info, ''Removing non GeoPackage, raster or log with contents outputs/report.html'')])
   \<and> map el_text (findall ''Path'' mixed_tree_pruned)
       = [Some ''outputs/notes.catalog'', Some ''outputs/MOTIF'']
   \<and> matches ascii_lower ''outputs/notes.catalog'' = [''log'']
   \<and> matches ascii_lower ''outputs/MOTIF'' = [''tif'']"
proof -
  have h1: "\<forall>d \<in> set (findall_pos ''Path'' [] mixed_tree). snd d \<noteq> None"
    by code_simp
  have u: "unkept_parents ascii_lower (findall_pos ''Path'' [] mixed_tree) = [[0, 1]]"
    by code_simp
  have h2: "distinct (unkept_parents ascii_lower (findall_pos ''Path'' [] mixed_tree))"
    and h3: "[] \<notin> set (unkept_parents ascii_lower (findall_pos ''Path'' [] mixed_tree))"
    by (simp_all add: u)
  have l: "removal_log ascii_lower (findall_pos ''Path'' [] mixed_tree)
             = [(Info, ''Removing non GeoPackage, raster or log with contents outputs/report.html'')]"
    by code_simp
  have p: "prune (set [[0, 1]]) [] mixed_tree = mixed_tree_pruned"
    by code_simp
  have k: "map snd (filter (\<lambda>d. kept_below (set [[0, 1]]) [] (fst d))
                      (findall_pos ''Path'' [] mixed_tree))
             = [Some ''outputs/notes.catalog'', Some ''outputs/MOTIF'']"
    by code_simp
  have m: "matches ascii_lower ''outputs/notes.catalog'' = [''log'']
         \<and> matches ascii_lower ''outputs/MOTIF'' = [''tif'']"
    by code_simp
  note t = suffix_test_per_path [OF h1 h2 h3]
  from t have "delete_unmerged_paths_tree ascii_lower mixed_tree
     = Inr (mixed_tree_pruned,
            [(Info, ''Removing non GeoPackage, raster or log with contents outputs/report.html'')])"
    by (simp only: u l p)
  moreover from t have "map el_text (findall ''Path'' mixed_tree_pruned)
       = [Some ''outputs/notes.catalog'', Some ''outputs/MOTIF'']"
    by (simp only: u p k)
  ultimately show ?thesis using m by blast
qed

text \<open>
  C10, in the words of the claim, fails: the text \<^verbatim>\<open>docs/catalog\<close> ends in \<^verbatim>\<open>log\<close> and passes
  the test, but its entry declares the report as well and is removed with it, so the
  declaration is not retained.
\<close>

theorem passing_path_removed_with_sibling_counterexample:
  "matches ascii_lower ''docs/catalog'' = [''log'']
   \<and> map snd (findall_pos ''Path'' [] two_path_tree)
       = [Some ''docs/catalog'', Some ''outputs/report.html'']
   \<and> delete_unmerged_paths_tree ascii_lower two_path_tree
       = Inr (two_path_tree_pruned,
              [(Info, ''Removing non GeoPackage, raster or log with contents outputs/report.html'')])
   \<and> findall ''Path'' two_path_tree_pruned = []"
  by code_simp

section \<open>Catalog folding\<close>




















section \<open>Raster mosaics\<close>

lemma unquote: "butlast (tl (quoted s)) = s"
  by (simp add: quoted_def butlast_append)

lemma delete_sources_fs:
  "fst (delete_sources (map quoted occs) (fs, lg)) = (\<lambda>p. if p \<in> set occs then None else fs p)"
proof (induction occs arbitrary: fs lg)
  case Nil
  then show ?case by simp
next
  case (Cons a occs)
  show ?case
  proof (cases "isfile fs a")
    case True
    then show ?thesis by (auto simp: unquote Cons.IH os_remove_def Let_def)
  next
    case False
    then have "fs a = None" by (simp add: isfile_def)
    then show ?thesis using False by (auto simp: unquote Cons.IH Let_def)
  qed
qed

lemma process_raster_eq:
  assumes "r_occurences ri = first # rest" and "Raster fs first = Inr (dt, nd)"
  shows "process_raster str sh output_dir delete_source ri (fs, lg) =
     (let cmd = join_space (merge_params (os_path_join output_dir (r_path ri))
                              (compression dt) (no_data str nd) (map quoted (first # rest)));
          lg2 = lg @ [(Info, ''Merging '' @ str_nat (length (first # rest)) @ '' ''
                             @ str_opt (r_name ri) @ '' rasters.''),
                      (Debug, ''EXECUTING: '' @ cmd)];
          fs2 = snd (sh None cmd fs)
      in Inr (if delete_source then delete_sources (map quoted (first # rest)) (fs2, lg2)
              else (fs2, lg2)))"
  using assms
  by (simp add: process_raster_def Let_def)
lemma command_explicit:
  "join_space (merge_params out (compression dt) (no_data str nd) inputs)
     = join_space ([''gdal_merge.py'', ''-o'', quoted out, ''-co'',
                    ''COMPRESS='' @ (if dt \<in> {GDT_Byte, GDT_UInt16, GDT_UInt32, GDT_Int16, GDT_Int32}
                                    then ''DEFLATE'' else ''LZW''),
                    (case nd of Some v \<Rightarrow> ''-a_nodata '' @ str v | None \<Rightarrow> [])] @ inputs)"
proof -
  have "(dt \<in> set integer_raster_enums) = (dt \<in> {GDT_Byte, GDT_UInt16, GDT_UInt32, GDT_Int16, GDT_Int32})"
    by (auto simp: integer_raster_enums_def)
  then show ?thesis
    by (simp only: merge_params_def compression_def no_data_def)
qed
lemma codecs:
  "(\<forall>t \<in> {GDT_Byte, GDT_UInt16, GDT_UInt32, GDT_Int16, GDT_Int32}.
         compression t = ''COMPRESS=DEFLATE'')
   \<and> (\<forall>t \<in> {GDT_Float32, GDT_Float64}. compression t = ''COMPRESS=LZW'')
   \<and> ''COMPRESS=DEFLATE'' \<noteq> ''COMPRESS=LZW''
   \<and> (\<forall>t \<in> {GDT_UInt64, GDT_Int64, GDT_Int8}.
         integer_valued t \<and> compression t = ''COMPRESS=LZW'')"
  by (simp add: compression_def integer_raster_enums_def integer_valued_def GDT_Byte_def
        GDT_UInt16_def GDT_UInt32_def GDT_Int16_def GDT_Int32_def GDT_Float32_def GDT_Float64_def
        GDT_UInt64_def GDT_Int64_def GDT_Int8_def)

text \<open>
  C4, as the code has it: when the first occurrence of a raster identity can be opened,
  the mosaic command is run and then, if the delete-source flag is set, every source
  occurrence file of the identity is deleted, whatever exit status the command returned;
  without the flag the files are as the command left them.
\<close>

theorem delete_source_after_command_any_status:
  assumes "r_occurences ri = first # rest" and "Raster fs first = Inr (dt, nd)"
  shows "\<not> isl (process_raster str sh output_dir delete_source ri (fs, lg))
     \<and> fst (projr (process_raster str sh output_dir delete_source ri (fs, lg)))
         = (\<lambda>p. if delete_source \<and> p \<in> set (first # rest) then None
                 else snd (sh None
                             (join_space (merge_params (os_path_join output_dir (r_path ri))
                                (compression dt) (no_data str nd) (map quoted (first # rest))))
                             fs) p)"
proof (cases delete_source)
  case True
  then show ?thesis
    by (simp only: process_raster_eq [OF assms] Let_def if_True delete_sources_fs
          sum.sel sum.disc simp_thms)
next
  case False
  then show ?thesis
    by (simp only: process_raster_eq [OF assms] Let_def if_False fst_conv
          sum.sel sum.disc simp_thms)
qed

theorem delete_source_after_command_any_status_witness:
  "merge_files ''A/topo/dem.tif'' \<noteq> None \<and> merge_files ''B/inputs/elevation.tif'' \<noteq> None
   \<and> \<not> isl (process_raster (\<lambda>s. s) ok_shell ''merged'' True (snd (hd rasters_AB)) (merge_files, []))
   \<and> fst (projr (process_raster (\<lambda>s. s) ok_shell ''merged'' True (snd (hd rasters_AB))
                   (merge_files, []))) ''A/topo/dem.tif'' = None
   \<and> fst (projr (process_raster (\<lambda>s. s) ok_shell ''merged'' True (snd (hd rasters_AB))
                   (merge_files, []))) ''B/inputs/elevation.tif'' = None"
proof -
  have h1: "r_occurences (snd (hd rasters_AB)) = ''A/topo/dem.tif'' # [''B/inputs/elevation.tif'']"
    by code_simp
  have h2: "Raster merge_files ''A/topo/dem.tif'' = Inr (6, Some ''-9999.0'')"
    by code_simp
  have h3: "merge_files ''A/topo/dem.tif'' \<noteq> None \<and> merge_files ''B/inputs/elevation.tif'' \<noteq> None"
    by code_simp
  note t = delete_source_after_command_any_status
             [OF h1 h2, of "\<lambda>s. s" ok_shell "''merged''" True "[]"]
  from t have ok: "\<not> isl (process_raster (\<lambda>s. s) ok_shell ''merged'' True (snd (hd rasters_AB))
                         (merge_files, []))"
    by (rule conjunct1)
  from t have a: "fst (projr (process_raster (\<lambda>s. s) ok_shell ''merged'' True (snd (hd rasters_AB))
                   (merge_files, []))) ''A/topo/dem.tif'' = None"
    by simp
  from t have b: "fst (projr (process_raster (\<lambda>s. s) ok_shell ''merged'' True (snd (hd rasters_AB))
                   (merge_files, []))) ''B/inputs/elevation.tif'' = None"
    by simp
  from h3 ok a b show ?thesis by blast
qed

text \<open>
  C4, as the specification has it, fails: the mosaic command of the raster \<^verbatim>\<open>DEM\<close> returns the
  exit status 1 and writes no output, and both source files are deleted all the same.
\<close>

theorem delete_source_failed_mosaic_counterexample:
  "fst (failing_shell None
          (''gdal_merge.py -o '' @ quoted ''merged/topo/dem.tif''
             @ '' -co COMPRESS=LZW -a_nodata -9999.0 '' @ quoted ''A/topo/dem.tif''
             @ '' '' @ quoted ''B/inputs/elevation.tif'')
          merge_files) = 1
   \<and> snd (projr (process_rasters (\<lambda>s. s) failing_shell rasters_AB ''merged'' True (merge_files, [])))
       = [(Info, ''Merging 2 DEM A rasters.''),
          (Debug, ''EXECUTING: gdal_merge.py -o '' @ quoted ''merged/topo/dem.tif''
             @ '' -co COMPRESS=LZW -a_nodata -9999.0 '' @ quoted ''A/topo/dem.tif''
             @ '' '' @ quoted ''B/inputs/elevation.tif''),
          (Info, ''Deleting source raster A/topo/dem.tif''),
          (Info, ''Deleting source raster B/inputs/elevation.tif'')]
   \<and> merge_files ''A/topo/dem.tif'' \<noteq> None \<and> merge_files ''B/inputs/elevation.tif'' \<noteq> None
   \<and> \<not> isl (process_rasters (\<lambda>s. s) failing_shell rasters_AB ''merged'' True (merge_files, []))
   \<and> fst (projr (process_rasters (\<lambda>s. s) failing_shell rasters_AB ''merged'' True
                   (merge_files, []))) ''A/topo/dem.tif'' = None
   \<and> fst (projr (process_rasters (\<lambda>s. s) failing_shell rasters_AB ''merged'' True
                   (merge_files, []))) ''B/inputs/elevation.tif'' = None
   \<and> fst (projr (process_rasters (\<lambda>s. s) failing_shell rasters_AB ''merged'' True
                   (merge_files, []))) ''merged/topo/dem.tif'' = None"
  by code_simp

text \<open>
  C5, as the code has it: for a catalog entry whose first occurrence can be opened, the
  mosaic command is built from the data type and the no-data value of that first
  occurrence.  The no-data argument is \<^verbatim>\<open>-a_nodata\<close> with the value when the occurrence
  declares one and the empty string when it does not.  The codec is \<^verbatim>\<open>DEFLATE\<close> for the
  five types of \<^verbatim>\<open>integer_raster_enums\<close> and \<^verbatim>\<open>LZW\<close> for every other type: for the
  floating-point types, and also for the integer types the list misses (UInt64, Int64,
  Int8), which so get the codec of the floating-point rasters.
\<close>

theorem mosaic_codec_and_nodata:
  assumes "r_occurences ri = first # rest" and "Raster fs first = Inr (dt, nd)"
  shows "process_raster str sh output_dir delete_source ri (fs, lg) =
     (let cmd = join_space
                  ([''gdal_merge.py'', ''-o'', quoted (os_path_join output_dir (r_path ri)), ''-co'',
                    ''COMPRESS='' @ (if dt \<in> {GDT_Byte, GDT_UInt16, GDT_UInt32, GDT_Int16, GDT_Int32}
                                    then ''DEFLATE'' else ''LZW''),
                    (case nd of Some v \<Rightarrow> ''-a_nodata '' @ str v | None \<Rightarrow> [])]
                   @ map quoted (first # rest));
          lg2 = lg @ [(Info, ''Merging '' @ str_nat (length (first # rest)) @ '' ''
                             @ str_opt (r_name ri) @ '' rasters.''),
                      (Debug, ''EXECUTING: '' @ cmd)];
          fs2 = snd (sh None cmd fs)
      in Inr (if delete_source then delete_sources (map quoted (first # rest)) (fs2, lg2)
              else (fs2, lg2)))
   \<and> (\<forall>t \<in> {GDT_Byte, GDT_UInt16, GDT_UInt32, GDT_Int16, GDT_Int32}.
         compression t = ''COMPRESS=DEFLATE'')
   \<and> (\<forall>t \<in> {GDT_Float32, GDT_Float64}. compression t = ''COMPRESS=LZW'')
   \<and> ''COMPRESS=DEFLATE'' \<noteq> ''COMPRESS=LZW''
   \<and> (\<forall>t \<in> {GDT_UInt64, GDT_Int64, GDT_Int8}.
         integer_valued t \<and> compression t = ''COMPRESS=LZW'')"
proof -
  have "process_raster str sh output_dir delete_source ri (fs, lg) =
     (let cmd = join_space
                  ([''gdal_merge.py'', ''-o'', quoted (os_path_join output_dir (r_path ri)), ''-co'',
                    ''COMPRESS='' @ (if dt \<in> {GDT_Byte, GDT_UInt16, GDT_UInt32, GDT_Int16, GDT_Int32}
                                    then ''DEFLATE'' else ''LZW''),
                    (case nd of Some v \<Rightarrow> ''-a_nodata '' @ str v | None \<Rightarrow> [])]
                   @ map quoted (first # rest));
          lg2 = lg @ [(Info, ''Merging '' @ str_nat (length (first # rest)) @ '' ''
                             @ str_opt (r_name ri) @ '' rasters.''),
                      (Debug, ''EXECUTING: '' @ cmd)];
          fs2 = snd (sh None cmd fs)
      in Inr (if delete_source then delete_sources (map quoted (first # rest)) (fs2, lg2)
              else (fs2, lg2)))"
    by (simp only: process_raster_eq [OF assms] command_explicit)
  with codecs show ?thesis by blast
qed

text \<open>
  A raster of signed 64-bit integers is merged with \<^verbatim>\<open>LZW\<close>, as the floating-point raster
  is; a raster of bytes without a no-data value is merged with \<^verbatim>\<open>DEFLATE\<close> and an empty
  no-data argument.
\<close>

theorem mosaic_codec_and_nodata_witness:
  "integer_valued 13
   \<and> \<not> isl (process_raster (\<lambda>s. s) ok_shell ''merged'' False counts_info (counts_files, []))
   \<and> snd (projr (process_raster (\<lambda>s. s) ok_shell ''merged'' False counts_info
                 (counts_files, [])))
     = [(Info, ''Merging 1 Counts rasters.''),
        (Debug, ''EXECUTING: gdal_merge.py -o '' @ quoted ''merged/counts.tif''
           @ '' -co COMPRESS=LZW -a_nodata -1 '' @ quoted ''A/counts.tif'')]
   \<and> snd (projr (process_raster (\<lambda>s. s) ok_shell ''merged'' False (snd (hd rasters_AB))
                 (merge_files, [])))
     = [(Info, ''Merging 2 DEM A rasters.''),
        (Debug, ''EXECUTING: gdal_merge.py -o '' @ quoted ''merged/topo/dem.tif''
           @ '' -co COMPRESS=LZW -a_nodata -9999.0 '' @ quoted ''A/topo/dem.tif''
           @ '' '' @ quoted ''B/inputs/elevation.tif'')]
   \<and> snd (projr (process_raster (\<lambda>s. s) ok_shell ''merged'' False landcover_info
                 (landcover_files, [])))
     = [(Info, ''Merging 1 Land cover rasters.''),
        (Debug, ''EXECUTING: gdal_merge.py -o '' @ quoted ''merged/landcover.tif''
           @ '' -co COMPRESS=DEFLATE  '' @ quoted ''A/landcover.tif'')]"
proof -
  have h1: "r_occurences counts_info = ''A/counts.tif'' # []"
    by code_simp
  have h2: "Raster counts_files ''A/counts.tif'' = Inr (13, Some ''-1'')"
    by code_simp
  note t = mosaic_codec_and_nodata [OF h1 h2, of "\<lambda>s. s" ok_shell "''merged''" False "[]"]
  from t have ok: "\<not> isl (process_raster (\<lambda>s. s) ok_shell ''merged'' False counts_info
                         (counts_files, []))"
    by (simp only: Let_def sum.disc simp_thms)
  from t have iv: "integer_valued 13"
    by (simp add: GDT_Int64_def)
  have c: "snd (projr (process_raster (\<lambda>s. s) ok_shell ''merged'' False counts_info
                 (counts_files, [])))
     = [(Info, ''Merging 1 Counts rasters.''),
        (Debug, ''EXECUTING: gdal_merge.py -o '' @ quoted ''merged/counts.tif''
           @ '' -co COMPRESS=LZW -a_nodata -1 '' @ quoted ''A/counts.tif'')]"
    by code_simp
  have a: "snd (projr (process_raster (\<lambda>s. s) ok_shell ''merged'' False (snd (hd rasters_AB))
                 (merge_files, [])))
     = [(Info, ''Merging 2 DEM A rasters.''),
        (Debug, ''EXECUTING: gdal_merge.py -o '' @ quoted ''merged/topo/dem.tif''
           @ '' -co COMPRESS=LZW -a_nodata -9999.0 '' @ quoted ''A/topo/dem.tif''
           @ '' '' @ quoted ''B/inputs/elevation.tif'')]"
    by code_simp
  have b: "snd (projr (process_raster (\<lambda>s. s) ok_shell ''merged'' False landcover_info
                 (landcover_files, [])))
     = [(Info, ''Merging 1 Land cover rasters.''),
        (Debug, ''EXECUTING: gdal_merge.py -o '' @ quoted ''merged/landcover.tif''
           @ '' -co COMPRESS=DEFLATE  '' @ quoted ''A/landcover.tif'')]"
    by code_simp
  from iv ok c a b show ?thesis by blast
qed

section \<open>The merge loop\<close>

lemma project_step_first:
  assumes "project_step fs rm rl item st = Inr st'"
  shows "first_project_xml st' = Some (os_path_join (fst item) ''project.rs.xml'')"
  using assms
  by (auto simp: project_step_def split: sum.splits)

lemma for_each_project_step_first:
  assumes "for_each (project_step fs rm rl) ps st = Inr st'"
  shows "first_project_xml st'
           = (if ps = [] then first_project_xml st
              else Some (os_path_join (fst (last ps)) ''project.rs.xml''))"
  using assms
proof (induction ps arbitrary: st)
  case Nil
  then show ?case by simp
next
  case (Cons item ps)
  then obtain st1 where 1: "project_step fs rm rl item st = Inr st1"
    and 2: "for_each (project_step fs rm rl) ps st1 = Inr st'"
    by (auto split: sum.splits)
  from Cons.IH [OF 2] project_step_first [OF 1] show ?case by simp
qed

lemma for_each_fails:
  assumes "x \<in> set xs" and "\<And>s. \<exists>e. body x s = Inl e"
  shows "\<exists>e. for_each body xs s = Inl e"
  using assms(1)
proof (induction xs arbitrary: s)
  case Nil
  then show ?case by simp
next
  case (Cons y ys)
  show ?case
  proof (cases "body y s")
    case (Inl e)
    then show ?thesis by simp
  next
    case (Inr s1)
    with assms(2) have "y \<noteq> x" by (metis sum.distinct(1))
    with Cons.prems have "x \<in> set ys" by simp
    from Cons.IH [OF this] Inr show ?thesis by simp
  qed
qed

lemma project_step_unparseable:
  assumes "ET_parse fs (os_path_join (fst item) ''project.rs.xml'') = Inl e"
  shows "project_step fs rm rl item st = Inl e"
  using assms by (simp add: project_step_def get_raster_datasets_def)

text \<open>
  C1, as the code has it: the assignment to \<^verbatim>\<open>first_project_xml\<close> is made on every turn of
  the loop, so the tree loaded as the template of a merge that gets so far is the tree
  of the last project of the caller's order, not of the first.
\<close>

theorem template_is_last_project:
  assumes "merge_projects str sh eng rm fs projects_lookup merged_dir name regex_list delete_source
             = Inr m"
  shows "projects_lookup \<noteq> []
     \<and> template_xml m = os_path_join (fst (last projects_lookup)) ''project.rs.xml''
     \<and> ET_parse (files m) (template_xml m) = Inr (template m)"
proof -
  from assms obtain st where ml: "merge_loop fs rm regex_list projects_lookup = Inr st"
    by (cases "merge_loop fs rm regex_list projects_lookup") (auto simp: merge_projects_def)
  from assms ml obtain st1 where
    pr: "process_rasters str sh (project_rasters st) merged_dir delete_source (fs, logged st) = Inr st1"
    by (cases "process_rasters str sh (project_rasters st) merged_dir delete_source (fs, logged st)")
       (auto simp: merge_projects_def)
  let ?st2 = "process_vectors sh (project_vectors st) merged_dir st1"
  let ?u = "union_polygons eng (fst ?st2) (bounds_geojson_files st)
              (os_path_join merged_dir ''project_bounds.geojson'')"
  from assms ml pr obtain c r fs3 where u: "?u = Inr ((c, r), fs3)"
    by (cases ?u) (auto simp: merge_projects_def Let_def)
  from assms ml pr u obtain xml where x: "first_project_xml st = Some xml"
    by (cases "first_project_xml st") (auto simp: merge_projects_def Let_def)
  from assms ml pr u x obtain tree where t: "ET_parse fs3 xml = Inr tree"
    by (cases "ET_parse fs3 xml") (auto simp: merge_projects_def Let_def)
  from assms ml pr u x t have m: "template_xml m = xml" "template m = tree" "files m = fs3"
    by (auto simp: merge_projects_def Let_def)
  from ml have f: "first_project_xml st
           = (if projects_lookup = [] then None
              else Some (os_path_join (fst (last projects_lookup)) ''project.rs.xml''))"
    using for_each_project_step_first [of fs rm regex_list projects_lookup _ st]
    by (simp add: merge_loop_def)
  from f x have ne: "projects_lookup \<noteq> []" by (auto split: if_splits)
  with f x have "xml = os_path_join (fst (last projects_lookup)) ''project.rs.xml''" by simp
  with ne m t show ?thesis by simp
qed

text \<open>
  Two projects, \<^verbatim>\<open>A\<close> before \<^verbatim>\<open>B\<close>: the template is the tree of \<^verbatim>\<open>B\<close>, which is not the tree of
  \<^verbatim>\<open>A\<close>.
\<close>

theorem template_is_last_project_witness:
  "\<not> isl (merge_projects (\<lambda>s. s) ok_shell cell_engine match_all merge_files
             [(''A'', \<lparr>p_id = ''a''\<rparr>), (''B'', \<lparr>p_id = ''b''\<rparr>)] ''merged'' ''Merged'' [''.*''] False)
   \<and> template_xml (projr (merge_projects (\<lambda>s. s) ok_shell cell_engine match_all merge_files
             [(''A'', \<lparr>p_id = ''a''\<rparr>), (''B'', \<lparr>p_id = ''b''\<rparr>)] ''merged'' ''Merged'' [''.*''] False))
       = ''B/project.rs.xml''
   \<and> template (projr (merge_projects (\<lambda>s. s) ok_shell cell_engine match_all merge_files
             [(''A'', \<lparr>p_id = ''a''\<rparr>), (''B'', \<lparr>p_id = ''b''\<rparr>)] ''merged'' ''Merged'' [''.*''] False))
       = tree_B
   \<and> tree_B \<noteq> tree_A"
proof -
  let ?r = "merge_projects (\<lambda>s. s) ok_shell cell_engine match_all merge_files
             [(''A'', \<lparr>p_id = ''a''\<rparr>), (''B'', \<lparr>p_id = ''b''\<rparr>)] ''merged'' ''Merged'' [''.*''] False"
  have ok: "\<not> isl ?r" by code_simp
  then obtain m where m: "?r = Inr m" by (cases ?r) auto
  have j: "os_path_join ''B'' ''project.rs.xml'' = ''B/project.rs.xml''" by code_simp
  from template_is_last_project [OF m] have "template_xml m = ''B/project.rs.xml''"
    by (simp add: j)
  moreover have "template (projr ?r) = tree_B" by code_simp
  moreover have "tree_B \<noteq> tree_A" by code_simp
  ultimately show ?thesis using ok m by simp
qed

text \<open>
  C3, as the code has it: no call of the loop is inside a \<^verbatim>\<open>try\<close>, and the only skip tests
  the joined path against \<^verbatim>\<open>None\<close>; a project of the list whose metadata tree cannot be
  parsed makes the whole merge fail, whichever projects come before or after it.
\<close>

theorem unparseable_project_aborts_merge:
  assumes "item \<in> set projects_lookup"
    and "ET_parse fs (os_path_join (fst item) ''project.rs.xml'') = Inl e"
  shows "\<exists>e'. merge_loop fs rm regex_list projects_lookup = Inl e'
           \<and> merge_projects str sh eng rm fs projects_lookup merged_dir name regex_list
               delete_source = Inl e'"
proof -
  have "\<exists>e'. for_each (project_step fs rm regex_list) projects_lookup s = Inl e'" for s
    using assms(1) project_step_unparseable [OF assms(2)]
    by (intro for_each_fails [where x = item]) auto
  then obtain e' where "merge_loop fs rm regex_list projects_lookup = Inl e'"
    unfolding merge_loop_def by blast
  then show ?thesis by (auto simp: merge_projects_def)
qed

text \<open>
  The file \<^verbatim>\<open>X/project.rs.xml\<close> is not XML: the merge of \<^verbatim>\<open>A\<close>, \<^verbatim>\<open>X\<close> fails with the parse
  error, while the merge of \<^verbatim>\<open>A\<close> alone returns.
\<close>

theorem unparseable_project_aborts_merge_witness:
  "merge_projects (\<lambda>s. s) ok_shell cell_engine match_all merge_files
     [(''A'', \<lparr>p_id = ''a''\<rparr>), (''X'', \<lparr>p_id = ''x''\<rparr>)] ''merged'' ''Merged'' [''.*''] False
     = Inl ParseError
   \<and> \<not> isl (merge_projects (\<lambda>s. s) ok_shell cell_engine match_all merge_files
             [(''A'', \<lparr>p_id = ''a''\<rparr>)] ''merged'' ''Merged'' [''.*''] False)"
proof -
  have h1: "(''X'', \<lparr>p_id = ''x''\<rparr>) \<in> set [(''A'', \<lparr>p_id = ''a''\<rparr>), (''X'', \<lparr>p_id = ''x''\<rparr>)]"
    by simp
  have h2: "ET_parse merge_files (os_path_join (fst (''X'', \<lparr>p_id = ''x''\<rparr>)) ''project.rs.xml'')
              = Inl ParseError"
    by code_simp
  from unparseable_project_aborts_merge [OF h1 h2, of match_all "[''.*'']" "\<lambda>s. s" ok_shell
         cell_engine "''merged''" "''Merged''" False]
  obtain e' where e: "merge_loop merge_files match_all [''.*'']
                        [(''A'', \<lparr>p_id = ''a''\<rparr>), (''X'', \<lparr>p_id = ''x''\<rparr>)] = Inl e'"
    and m: "merge_projects (\<lambda>s. s) ok_shell cell_engine match_all merge_files
     [(''A'', \<lparr>p_id = ''a''\<rparr>), (''X'', \<lparr>p_id = ''x''\<rparr>)] ''merged'' ''Merged'' [''.*''] False
     = Inl e'"
    by blast
  have "merge_loop merge_files match_all [''.*'']
          [(''A'', \<lparr>p_id = ''a''\<rparr>), (''X'', \<lparr>p_id = ''x''\<rparr>)] = Inl ParseError"
    by code_simp
  with e have "e' = ParseError" by simp
  moreover have "\<not> isl (merge_projects (\<lambda>s. s) ok_shell cell_engine match_all merge_files
             [(''A'', \<lparr>p_id = ''a''\<rparr>)] ''merged'' ''Merged'' [''.*''] False)"
    by code_simp
  ultimately show ?thesis using m by simp
qed

section \<open>Logging of what is left out\<close>

text \<open>
  C9, as the code has it: an entry the inclusion filter leaves out of the raster catalog
  or of the vector catalog is logged with its display name and path, while
  \<^verbatim>\<open>get_bounds_geojson_file\<close> has no logger: a project whose declared extent file does not
  exist is left out of the list of extent files and the log after the project is what the
  raster and vector readers wrote.
\<close>

theorem skips_logged_except_missing_extent:
  "(attrib_get ''id'' r = Inr rid \<and> find_text ''Path'' r = Inr path
      \<and> find_text ''Name'' r = Inr nm \<and> any_match rm rl path = Inr False
    \<longrightarrow> raster_step rm rl proj r (m, lg)
          = Inr (m, lg @ [(Info, ''Skipping non-regex raster '' @ str_opt nm
                                  @ '' with path '' @ str_opt path)]))
   \<and> (attrib_get ''id'' gp = Inr gid \<and> find_text ''Path'' gp = Inr gpath
      \<and> find_text ''Name'' gp = Inr gnm \<and> any_match rm rl gpath = Inr False
    \<longrightarrow> vector_step rm rl proj gp (v, lg)
          = Inr (v, lg @ [(Info, ''Skipping non-regex raster '' @ str_opt gnm
                                  @ '' with path '' @ str_opt gpath)]))
   \<and> (ET_parse fs xml = Inr tree \<and> find_bounds_path tree = Some c \<and> el_text c = Some rel
      \<and> \<not> isfile fs (os_path_join (os_path_dirname xml) rel)
    \<longrightarrow> get_bounds_geojson_file fs xml bs = Inr bs)
   \<and> (project_step fs rm rl item st = Inr st'
    \<longrightarrow> (\<exists>rs lg1 vs.
          get_raster_datasets fs rm (os_path_join (fst item) ''project.rs.xml'')
            (project_rasters st, logged st) rl = Inr (rs, lg1)
        \<and> get_vector_datasets fs rm (os_path_join (fst item) ''project.rs.xml'')
            (project_vectors st, lg1) rl = Inr (vs, logged st')))"
proof (intro conjI impI)
  assume "attrib_get ''id'' r = Inr rid \<and> find_text ''Path'' r = Inr path
      \<and> find_text ''Name'' r = Inr nm \<and> any_match rm rl path = Inr False"
  then show "raster_step rm rl proj r (m, lg)
          = Inr (m, lg @ [(Info, ''Skipping non-regex raster '' @ str_opt nm
                                  @ '' with path '' @ str_opt path)])"
    by (simp add: raster_step_def)
next
  assume "attrib_get ''id'' gp = Inr gid \<and> find_text ''Path'' gp = Inr gpath
      \<and> find_text ''Name'' gp = Inr gnm \<and> any_match rm rl gpath = Inr False"
  then show "vector_step rm rl proj gp (v, lg)
          = Inr (v, lg @ [(Info, ''Skipping non-regex raster '' @ str_opt gnm
                                  @ '' with path '' @ str_opt gpath)])"
    by (simp add: vector_step_def)
next
  assume "ET_parse fs xml = Inr tree \<and> find_bounds_path tree = Some c \<and> el_text c = Some rel
      \<and> \<not> isfile fs (os_path_join (os_path_dirname xml) rel)"
  then show "get_bounds_geojson_file fs xml bs = Inr bs"
    by (simp add: get_bounds_geojson_file_def Let_def)
next
  assume "project_step fs rm rl item st = Inr st'"
  then show "\<exists>rs lg1 vs.
          get_raster_datasets fs rm (os_path_join (fst item) ''project.rs.xml'')
            (project_rasters st, logged st) rl = Inr (rs, lg1)
        \<and> get_vector_datasets fs rm (os_path_join (fst item) ''project.rs.xml'')
            (project_vectors st, lg1) rl = Inr (vs, logged st')"
    by (auto simp: project_step_def split: sum.splits)
qed

text \<open>
  With the pattern \<^verbatim>\<open>x\<close>, which the example matcher does not know, the raster and the
  container of project \<^verbatim>\<open>B\<close> are skipped and logged; the extent file of \<^verbatim>\<open>B\<close> does not exist
  and is left out without a word.
\<close>

theorem skips_logged_except_missing_extent_witness:
  "raster_step match_all [''x''] ''B/project.rs.xml'' (hd datasets_B) ([], [])
     = Inr ([], [(Info, ''Skipping non-regex raster Elevation with path inputs/elevation.tif'')])
   \<and> vector_step match_all [''x''] ''B/project.rs.xml'' (hd (tl datasets_B)) ([], [])
     = Inr ([], [(Info, ''Skipping non-regex raster Streams with path inputs/streams.gpkg'')])
   \<and> get_bounds_geojson_file merge_files ''B/project.rs.xml'' [''A/project_bounds.geojson'']
     = Inr [''A/project_bounds.geojson'']
   \<and> logged (projr (project_step merge_files match_all [''x''] (''B'', \<lparr>p_id = ''b''\<rparr>)
                      \<lparr>first_project_xml = None, project_rasters = [], project_vectors = [],
                       bounds_geojson_files = [], logged = []\<rparr>))
     = [(Info, ''Skipping non-regex raster Elevation with path inputs/elevation.tif''),
        (Info, ''Skipping non-regex raster Streams with path inputs/streams.gpkg'')]"
proof -
  let ?st = "\<lparr>first_project_xml = None, project_rasters = [], project_vectors = [],
              bounds_geojson_files = [], logged = []\<rparr>"
  let ?c = "Element ''Path'' [] (Some ''project_bounds.geojson'') []"
  let ?res = "project_step merge_files match_all [''x''] (''B'', \<lparr>p_id = ''b''\<rparr>) ?st"
  have h1: "attrib_get ''id'' (hd datasets_B) = Inr ''DEM''
      \<and> find_text ''Path'' (hd datasets_B) = Inr (Some ''inputs/elevation.tif'')
      \<and> find_text ''Name'' (hd datasets_B) = Inr (Some ''Elevation'')
      \<and> any_match match_all [''x''] (Some ''inputs/elevation.tif'') = Inr False"
    by code_simp
  have h2: "attrib_get ''id'' (hd (tl datasets_B)) = Inr ''NETWORK''
      \<and> find_text ''Path'' (hd (tl datasets_B)) = Inr (Some ''inputs/streams.gpkg'')
      \<and> find_text ''Name'' (hd (tl datasets_B)) = Inr (Some ''Streams'')
      \<and> any_match match_all [''x''] (Some ''inputs/streams.gpkg'') = Inr False"
    by code_simp
  have h3: "ET_parse merge_files ''B/project.rs.xml'' = Inr tree_B
      \<and> find_bounds_path tree_B = Some ?c \<and> el_text ?c = Some ''project_bounds.geojson''
      \<and> \<not> isfile merge_files (os_path_join (os_path_dirname ''B/project.rs.xml'')
                                 ''project_bounds.geojson'')"
    by code_simp
  have ok: "\<not> isl ?res" by code_simp
  then obtain st' where h4: "?res = Inr st'" by (cases ?res) auto
  have s1: "str_opt (Some ''Elevation'') = ''Elevation''
          \<and> str_opt (Some ''inputs/elevation.tif'') = ''inputs/elevation.tif''
          \<and> str_opt (Some ''Streams'') = ''Streams''
          \<and> str_opt (Some ''inputs/streams.gpkg'') = ''inputs/streams.gpkg''"
    by (simp add: str_opt_def)
  note t = skips_logged_except_missing_extent
      [of "hd datasets_B" "''DEM''" "Some ''inputs/elevation.tif''" "Some ''Elevation''"
          match_all "[''x'']" "''B/project.rs.xml''" "[]" "[]"
          "hd (tl datasets_B)" "''NETWORK''" "Some ''inputs/streams.gpkg''" "Some ''Streams''" "[]"
          merge_files "''B/project.rs.xml''" tree_B ?c "''project_bounds.geojson''"
          "[''A/project_bounds.geojson'']" "(''B'', \<lparr>p_id = ''b''\<rparr>)" ?st st']
  from t h1 have a: "raster_step match_all [''x''] ''B/project.rs.xml'' (hd datasets_B) ([], [])
     = Inr ([], [(Info, ''Skipping non-regex raster Elevation with path inputs/elevation.tif'')])"
    by (simp add: s1)
  from t h2 have b: "vector_step match_all [''x''] ''B/project.rs.xml'' (hd (tl datasets_B)) ([], [])
     = Inr ([], [(Info, ''Skipping non-regex raster Streams with path inputs/streams.gpkg'')])"
    by (simp add: s1)
  from t h3 have c: "get_bounds_geojson_file merge_files ''B/project.rs.xml''
                       [''A/project_bounds.geojson''] = Inr [''A/project_bounds.geojson'']"
    by blast
  from t h4 have "\<exists>rs lg1 vs.
          get_raster_datasets merge_files match_all
            (os_path_join (fst (''B'', \<lparr>p_id = ''b''\<rparr>)) ''project.rs.xml'')
            (project_rasters ?st, logged ?st) [''x''] = Inr (rs, lg1)
        \<and> get_vector_datasets merge_files match_all
            (os_path_join (fst (''B'', \<lparr>p_id = ''b''\<rparr>)) ''project.rs.xml'')
            (project_vectors ?st, lg1) [''x''] = Inr (vs, logged st')"
    by blast
  have d: "logged (projr ?res)
     = [(Info, ''Skipping non-regex raster Elevation with path inputs/elevation.tif''),
        (Info, ''Skipping non-regex raster Streams with path inputs/streams.gpkg'')]"
    by code_simp
  from a b c d show ?thesis by blast
qed

text \<open>
  C9, as the specification has it, fails: project \<^verbatim>\<open>B\<close> declares an extent file that is not
  on disk; the loop returns with no extent file for it, and the log holds the opening line
  only.
\<close>

theorem missing_extent_silent_counterexample:
  "\<not> isfile merge_files ''B/project_bounds.geojson''
   \<and> \<not> isl (merge_loop merge_files match_all [''.*''] [(''B'', \<lparr>p_id = ''b''\<rparr>)])
   \<and> bounds_geojson_files
       (projr (merge_loop merge_files match_all [''.*''] [(''B'', \<lparr>p_id = ''b''\<rparr>)])) = []
   \<and> logged (projr (merge_loop merge_files match_all [''.*''] [(''B'', \<lparr>p_id = ''b''\<rparr>)]))
       = [(Info, ''Merging 1 project(s)'')]"
  by code_simp

end
